theory Spec2Isabelle
  imports Main "HOL-Library.AList"
begin

section \<open>Syntax trees read and written by the model class visitor\<close>

text \<open>
  The visitor of \<^verbatim>\<open>src/lib/plugin/visitors/model-class.visitor.ts\<close> reads property
  declarations of a class and writes, for each of them, an object literal expression:
  an ordered list of property assignments. The trees below hold what the visitor reads
  of a node and every node its factory calls build.
\<close>

datatype any_value =
    AnyString string
  | AnyNumber int
  | AnyBoolean bool
  | AnyNull
  | AnyArray "any_value list"

datatype expr =
    Identifier string
  | StringLiteral string
  | BooleanLiteral bool
  | PrimitiveLiteral any_value
  | ArrayLiteralExpression "expr list"
  | ObjectLiteralExpression "(string \<times> expr) list"
  | ParenthesizedExpression expr
  | ArrowFunction expr
  | isAsExpression: AsExpression (expression: expr) string
  | TypeAssertionExpression string expr
  | OtherExpression string

text \<open>
  A property assignment is the text of its name (\<^verbatim>\<open>item.name.getText()\<close>) and its
  initializer. \<^verbatim>\<open>ArrowFunction e\<close> is the parameterless arrow function \<^verbatim>\<open>() => e\<close>,
  \<^verbatim>\<open>AsExpression e t\<close> the expression \<^verbatim>\<open>e as t\<close>, for which \<^verbatim>\<open>ts.isAsExpression\<close> holds, and
  \<^verbatim>\<open>TypeAssertionExpression t e\<close> the angle-bracket assertion \<^verbatim>\<open><t>e\<close>, a node of another kind,
  for which it does not.
\<close>

type_synonym property_assignment = "string \<times> expr"

datatype modifier = StaticKeyword | OtherModifier

datatype name_kind = IdentifierName | ComputedPropertyName | OtherPropertyName

datatype decorator = Decorator (decoratorName: string) (decoratorArguments: "expr list")

text \<open>
  A type node is a type literal (its members), a union (its constituents) or any other
  type expression, of which the visitor reads whether its kind is \<^verbatim>\<open>NullKeyword\<close> and
  its source text. A property (a declaration of a class or a member of a type literal)
  has an optional name (kind and text), the question token, an optional type, an
  optional initializer, decorators and modifiers.
\<close>

datatype type_node =
    TypeLiteralNode "property list"
  | UnionTypeNode "type_node list"
  | OtherTypeNode bool string
and property =
    Property (propName: "(name_kind \<times> string) option") (questionToken: bool)
      (propType: "type_node option") (initializer: "expr option")
      (decorators: "decorator list") (modifiers: "modifier list")

datatype class_member =
    PropertyDeclaration property
  | MethodDeclaration "modifier list" string expr
  | OtherMember

record class_declaration =
  className :: "string option"
  members :: "class_member list"

text \<open>\<^verbatim>\<open>ClassMetadata = Record<string, ts.ObjectLiteralExpression>\<close>: keys in insertion order.\<close>

type_synonym class_metadata = "(string \<times> expr) list"

record plugin_options =
  introspectComments :: bool
  classValidatorShim :: bool
  dtoKeyOfComment :: string

text \<open>
  The options object \<^verbatim>\<open>{}\<close> handed to the members of a type literal: both flags are
  absent, hence falsy, and the comment key is never read.
\<close>

definition emptyOptions :: plugin_options where
  "emptyOptions = \<lparr>introspectComments = False, classValidatorShim = False, dtoKeyOfComment = []\<rparr>"

text \<open>The one failure the visitor's own code raises: reading through \<^verbatim>\<open>undefined\<close>.\<close>

datatype error = TypeError

section \<open>The type checker and the helpers of the plugin\<close>

text \<open>
  The type checker and the helpers imported from \<^verbatim>\<open>../utils/plugin-utils\<close> and
  \<^verbatim>\<open>../utils/ast-utils\<close> are parameters of the model: a record of functions over type
  handles \<^typ>\<open>'ty\<close>. \<^verbatim>\<open>getTypeAtLocation\<close> is the checker's query on a type node (or on
  \<^verbatim>\<open>undefined\<close>, when a property has no type annotation), \<^verbatim>\<open>getTypeOfProperty\<close> the same
  query on a property node; \<^verbatim>\<open>unionTypes\<close> reads the field \<^verbatim>\<open>types\<close> of a union
  type and \<^verbatim>\<open>symbolIsEnumMember\<close> the test
  \<^verbatim>\<open>type.symbol && type.symbol.flags === ts.SymbolFlags.EnumMember\<close>.
\<close>

record 'ty checker =
  getTypeAtLocation :: "type_node option \<Rightarrow> 'ty option"
  getTypeOfProperty :: "property \<Rightarrow> 'ty option"
  getTypeReferenceAsString :: "'ty \<Rightarrow> string option"
  replaceImportPath :: "string \<Rightarrow> string \<Rightarrow> string"
  isAutoGeneratedTypeUnion :: "'ty \<Rightarrow> bool"
  unionTypes :: "'ty \<Rightarrow> 'ty list"
  extractTypeArgumentIfArray :: "'ty \<Rightarrow> ('ty \<times> bool) option"
  symbolIsEnumMember :: "'ty \<Rightarrow> bool"
  isEnum :: "'ty \<Rightarrow> bool"
  isAutoGeneratedEnumUnion :: "'ty \<Rightarrow> 'ty option"
  getText :: "'ty \<Rightarrow> string"
  getMainCommentAndExamplesOfNode :: "property \<Rightarrow> string \<times> any_value list"

text \<open>
  Modelled from the spec: \<^verbatim>\<open>hasPropertyKey\<close> of \<^verbatim>\<open>../utils/plugin-utils\<close> is not in the
  source tree; the specification reads it as "the key is already present in the explicit
  keys" of the property.
\<close>

definition hasPropertyKey :: "string \<Rightarrow> property_assignment list \<Rightarrow> bool" where
  "hasPropertyKey key properties = list_ex (\<lambda>item. fst item = key) properties"

text \<open>
  Modelled from the spec: \<^verbatim>\<open>getDecoratorOrUndefinedByNames\<close> of \<^verbatim>\<open>../utils/plugin-utils\<close>
  is not in the source tree; the specification reads it as the first annotation whose
  name is among the given names. \<^verbatim>\<open>getDecoratorArguments\<close> of \<^verbatim>\<open>../utils/ast-utils\<close>, the
  ordered arguments of an annotation, is the field \<open>decoratorArguments\<close>.
\<close>

definition getDecoratorOrUndefinedByNames :: "string list \<Rightarrow> decorator list \<Rightarrow> decorator option" where
  "getDecoratorOrUndefinedByNames names ds = find (\<lambda>d. decoratorName d \<in> set names) ds"

text \<open>
  Modelled from the spec: \<^verbatim>\<open>createBooleanLiteral\<close> and \<^verbatim>\<open>createPrimitiveLiteral\<close> of
  \<^verbatim>\<open>../utils/ast-utils\<close> are not in the source tree; they build the literal node of
  the given value.
\<close>

definition createBooleanLiteral :: "bool \<Rightarrow> expr" where
  "createBooleanLiteral flag = BooleanLiteral flag"

definition createPrimitiveLiteral :: "any_value \<Rightarrow> expr" where
  "createPrimitiveLiteral item = PrimitiveLiteral item"

section \<open>The resolvers\<close>

subsection \<open>Union members\<close>

text \<open>
  The predicate of \<^verbatim>\<open>node.types.find\<close> in the union branch:
  \<^verbatim>\<open>type.kind === NullKeyword || (ts.SyntaxKind.LiteralType && type.getText() === 'null')\<close>.
  \<^verbatim>\<open>ts.SyntaxKind.LiteralType\<close> is a non-zero constant, so the second disjunct is the
  text comparison. The text of a type literal or of a union is never \<^verbatim>\<open>null\<close>.
\<close>

fun isNullLike :: "type_node \<Rightarrow> bool" where
  "isNullLike (OtherTypeNode isNullKeyword text) = (isNullKeyword \<or> text = ''null'')"
| "isNullLike (TypeLiteralNode ms) = False"
| "isNullLike (UnionTypeNode ts) = False"

definition nullableType :: "type_node list \<Rightarrow> type_node option" where
  "nullableType types = find isNullLike types"

text \<open>
  \<^verbatim>\<open>node.types.filter((item) => item !== nullableType)\<close> compares node identities: it
  drops the one node that \<^verbatim>\<open>find\<close> returned, the first null-like constituent, and keeps
  every other node, whatever its text.
\<close>

fun remainingTypes :: "type_node list \<Rightarrow> type_node list" where
  "remainingTypes [] = []"
| "remainingTypes (t # ts) = (if isNullLike t then ts else t # remainingTypes ts)"

subsection \<open>Type reference through the checker (lines 291 to 312)\<close>

definition typeReferenceAssignments ::
  "'ty checker \<Rightarrow> type_node option \<Rightarrow> string \<Rightarrow> property_assignment list" where
  "typeReferenceAssignments tc node hostFilename =
     (case getTypeAtLocation tc node of
        None \<Rightarrow> []
      | Some ty \<Rightarrow>
          (case getTypeReferenceAsString tc ty of
             None \<Rightarrow> []
           | Some typeReference \<Rightarrow>
               if typeReference = [] then []
               else [(''type'', ArrowFunction (Identifier (replaceImportPath tc typeReference hostFilename)))]))"

subsection \<open>Enum resolver\<close>

text \<open>Lines 334 to 370 of \<^verbatim>\<open>createEnumPropertyAssignment\<close>, from the working type on.\<close>

definition enumAssignmentsOfType :: "'ty checker \<Rightarrow> string \<Rightarrow> 'ty \<Rightarrow> property_assignment list" where
  "enumAssignmentsOfType tc hostFilename ty =
     (case extractTypeArgumentIfArray tc ty of
        None \<Rightarrow> []
      | Some (ty1, isArray1) \<Rightarrow>
          (let isEnumMember = symbolIsEnumMember tc ty1;
               resolved =
                 (if \<not> isEnum tc ty1 \<or> isEnumMember then
                    (case (if \<not> isEnumMember then isAutoGeneratedEnumUnion tc ty1 else Some ty1) of
                       None \<Rightarrow> None
                     | Some ty2 \<Rightarrow> extractTypeArgumentIfArray tc ty2)
                  else Some (ty1, isArray1))
           in case resolved of
                None \<Rightarrow> []
              | Some (ty3, isArrayType) \<Rightarrow>
                  (''enum'', Identifier (replaceImportPath tc (getText tc ty3) hostFilename))
                  # (if isArrayType then [(''isArray'', Identifier ''true'')] else [])))"

text \<open>
  \<^verbatim>\<open>createEnumPropertyAssignment\<close>. The result \<^verbatim>\<open>undefined\<close>, one assignment or an
  array of two is the list that \<^verbatim>\<open>compact(flatten(...))\<close> makes of it. An auto-generated
  union with no constituent gives \<^verbatim>\<open>types[-1]\<close>, that is \<^verbatim>\<open>undefined\<close>, to
  \<^verbatim>\<open>extractTypeArgumentIfArray\<close>, which reads through it.
\<close>

definition createEnumPropertyAssignment ::
  "'ty checker \<Rightarrow> property \<Rightarrow> property_assignment list \<Rightarrow> string \<Rightarrow> error + property_assignment list" where
  "createEnumPropertyAssignment tc node existingProperties hostFilename =
     (if hasPropertyKey ''enum'' existingProperties then Inr []
      else case getTypeOfProperty tc node of
             None \<Rightarrow> Inr []
           | Some ty \<Rightarrow>
               if isAutoGeneratedTypeUnion tc ty then
                 (case unionTypes tc ty of
                    [] \<Rightarrow> Inl TypeError
                  | t # ts \<Rightarrow> Inr (enumAssignmentsOfType tc hostFilename (last (t # ts))))
               else Inr (enumAssignmentsOfType tc hostFilename ty))"

subsection \<open>Default value\<close>

definition createDefaultPropertyAssignment ::
  "property \<Rightarrow> property_assignment list \<Rightarrow> property_assignment option" where
  "createDefaultPropertyAssignment node existingProperties =
     (if hasPropertyKey ''default'' existingProperties then None
      else case initializer node of
             None \<Rightarrow> None
           | Some init \<Rightarrow> Some (''default'', if isAsExpression init then expression init else init))"

subsection \<open>Validation bounds\<close>

definition addPropertyByValidationDecorator ::
  "string \<Rightarrow> string \<Rightarrow> decorator list \<Rightarrow> property_assignment list \<Rightarrow> property_assignment list" where
  "addPropertyByValidationDecorator name propertyKey ds assignments =
     (case getDecoratorOrUndefinedByNames [name] ds of
        None \<Rightarrow> assignments
      | Some decoratorRef \<Rightarrow>
          (case decoratorArguments decoratorRef of
             [] \<Rightarrow> assignments
           | argument # rest \<Rightarrow> assignments @ [(propertyKey, argument)]))"

definition createValidationPropertyAssignments :: "property \<Rightarrow> property_assignment list" where
  "createValidationPropertyAssignments node =
     addPropertyByValidationDecorator ''MaxLength'' ''maxLength'' (decorators node)
       (addPropertyByValidationDecorator ''MinLength'' ''minLength'' (decorators node)
         (addPropertyByValidationDecorator ''Max'' ''maximum'' (decorators node)
           (addPropertyByValidationDecorator ''Min'' ''minimum'' (decorators node) [])))"

subsection \<open>Description and examples\<close>

fun createLiteralFromAnyValue :: "any_value \<Rightarrow> expr" where
  "createLiteralFromAnyValue (AnyArray items) = ArrayLiteralExpression (map createLiteralFromAnyValue items)"
| "createLiteralFromAnyValue (AnyString s) = createPrimitiveLiteral (AnyString s)"
| "createLiteralFromAnyValue (AnyNumber n) = createPrimitiveLiteral (AnyNumber n)"
| "createLiteralFromAnyValue (AnyBoolean b) = createPrimitiveLiteral (AnyBoolean b)"
| "createLiteralFromAnyValue AnyNull = createPrimitiveLiteral AnyNull"

text \<open>
  \<^verbatim>\<open>createDescriptionAndExamplePropertyAssigments\<close>; \<^verbatim>\<open>hasSourceFile\<close> says whether the
  optional parameter \<^verbatim>\<open>sourceFile\<close> was given. In the branch for two or more examples the
  whole array \<^verbatim>\<open>examples\<close> goes to \<^verbatim>\<open>createLiteralFromAnyValue\<close>.
\<close>

definition createDescriptionAndExamplePropertyAssigments ::
  "'ty checker \<Rightarrow> property \<Rightarrow> property_assignment list \<Rightarrow> plugin_options \<Rightarrow> bool
     \<Rightarrow> property_assignment list" where
  "createDescriptionAndExamplePropertyAssigments tc node existingProperties options hasSourceFile =
     (if \<not> introspectComments options \<or> \<not> hasSourceFile then []
      else
        (let (comments, examples) = getMainCommentAndExamplesOfNode tc node;
             keyOfComment = dtoKeyOfComment options;
             hasExampleOrExamplesKey =
               (hasPropertyKey ''example'' existingProperties \<or> hasPropertyKey ''examples'' existingProperties)
         in (if \<not> hasPropertyKey keyOfComment existingProperties \<and> comments \<noteq> []
             then [(keyOfComment, StringLiteral comments)] else [])
            @ (if \<not> hasExampleOrExamplesKey \<and> examples \<noteq> [] then
                 (case examples of
                    [example] \<Rightarrow> [(''example'', createLiteralFromAnyValue example)]
                  | _ \<Rightarrow> [(''examples'', createLiteralFromAnyValue (AnyArray examples))])
               else [])))"

subsection \<open>The record of one property\<close>

text \<open>
  \<^verbatim>\<open>createDecoratorObjectLiteralExpr\<close> and \<^verbatim>\<open>createTypePropertyAssignments\<close> call each
  other: a type literal resolves each member as a property of its own, with the same
  \<^verbatim>\<open>existingProperties\<close>, the options \<^verbatim>\<open>{}\<close> and no source file. \<^verbatim>\<open>typeLiteralMembers\<close>
  is the callback mapped over \<^verbatim>\<open>node.members\<close>: it resolves the member first, then reads
  \<^verbatim>\<open>member.name.getText()\<close>, which raises when the member has no name (an index
  signature). The elements of the array literal in \<^verbatim>\<open>createDecoratorObjectLiteralExpr\<close>
  are evaluated left to right; \<^verbatim>\<open>compact(flatten(...))\<close> drops \<^verbatim>\<open>false\<close> and
  \<^verbatim>\<open>undefined\<close> and splices the arrays.
\<close>

function
  createDecoratorObjectLiteralExpr ::
    "'ty checker \<Rightarrow> property \<Rightarrow> property_assignment list \<Rightarrow> plugin_options \<Rightarrow> string \<Rightarrow> bool
       \<Rightarrow> error + property_assignment list"
and createTypePropertyAssignments ::
    "'ty checker \<Rightarrow> type_node option \<Rightarrow> property_assignment list \<Rightarrow> string
       \<Rightarrow> error + property_assignment list"
and typeLiteralMembers ::
    "'ty checker \<Rightarrow> property list \<Rightarrow> property_assignment list \<Rightarrow> string
       \<Rightarrow> error + property_assignment list"
where
  "createDecoratorObjectLiteralExpr tc node existingProperties options hostFilename hasSourceFile =
     (case createTypePropertyAssignments tc (propType node) existingProperties hostFilename of
        Inl e \<Rightarrow> Inl e
      | Inr typeAssignments \<Rightarrow>
          (case createEnumPropertyAssignment tc node existingProperties hostFilename of
             Inl e \<Rightarrow> Inl e
           | Inr enumAssignments \<Rightarrow>
               Inr (existingProperties
                    @ (if hasPropertyKey ''required'' existingProperties then []
                       else [(''required'', createBooleanLiteral (\<not> questionToken node))])
                    @ typeAssignments
                    @ createDescriptionAndExamplePropertyAssigments tc node existingProperties options hasSourceFile
                    @ (case createDefaultPropertyAssignment node existingProperties of
                         None \<Rightarrow> [] | Some a \<Rightarrow> [a])
                    @ enumAssignments
                    @ (if classValidatorShim options then createValidationPropertyAssignments node else []))))"
| "createTypePropertyAssignments tc node existingProperties hostFilename =
     (if hasPropertyKey ''type'' existingProperties then Inr []
      else
        (case node of
           Some (TypeLiteralNode ms) \<Rightarrow>
             (case typeLiteralMembers tc ms existingProperties hostFilename of
                Inl e \<Rightarrow> Inl e
              | Inr propertyAssignments \<Rightarrow>
                  Inr [(''type'', ArrowFunction (ParenthesizedExpression
                                     (ObjectLiteralExpression propertyAssignments)))])
         | Some (UnionTypeNode types) \<Rightarrow>
             (case remainingTypes types of
                [remaining] \<Rightarrow>
                  (case createTypePropertyAssignments tc (Some remaining) existingProperties hostFilename of
                     Inl e \<Rightarrow> Inl e
                   | Inr remainingTypesProperties \<Rightarrow>
                       Inr (remainingTypesProperties
                            @ (if nullableType types \<noteq> None
                               then [(''nullable'', createBooleanLiteral True)] else [])))
              | _ \<Rightarrow> Inr (typeReferenceAssignments tc node hostFilename))
         | _ \<Rightarrow> Inr (typeReferenceAssignments tc node hostFilename)))"
| "typeLiteralMembers tc [] existingProperties hostFilename = Inr []"
| "typeLiteralMembers tc (member # rest) existingProperties hostFilename =
     (case createDecoratorObjectLiteralExpr tc member existingProperties emptyOptions hostFilename False of
        Inl e \<Rightarrow> Inl e
      | Inr literalExpr \<Rightarrow>
          (case propName member of
             None \<Rightarrow> Inl TypeError
           | Some (kind, text) \<Rightarrow>
               (case typeLiteralMembers tc rest existingProperties hostFilename of
                  Inl e \<Rightarrow> Inl e
                | Inr assignments \<Rightarrow> Inr ((text, ObjectLiteralExpression literalExpr) # assignments))))"
  by pat_completeness auto

termination
proof (relation "measure (\<lambda>x. case x of
      Inl (tc, node, existingProperties, options, hostFilename, hasSourceFile) \<Rightarrow> size node
    | Inr (Inl (tc, node, existingProperties, hostFilename)) \<Rightarrow> size_option size node
    | Inr (Inr (tc, ms, existingProperties, hostFilename)) \<Rightarrow> size_list size ms)",
    goal_cases)
  case 1
  show ?case by simp
next
  case (2 tc node existingProperties options hostFilename hasSourceFile)
  show ?case by (cases node) simp
next
  case 3
  then show ?case by simp
next
  case (4 tc node existingProperties hostFilename x2 x2a x21 x22)
  have sub: "set (remainingTypes ts) \<subseteq> set ts" for ts
    by (induction ts) auto
  have "x21 \<in> set (remainingTypes x2a)" using 4 by simp
  then have "x21 \<in> set x2a" using sub by blast
  then have "size x21 \<le> size_list size x2a" by (rule size_list_estimation') simp
  then show ?case using 4 by simp
next
  case 5
  then show ?case by simp
next
  case 6
  then show ?case by simp
qed

subsection \<open>Records of nested members\<close>




section \<open>The class scan\<close>

text \<open>
  \<^verbatim>\<open>addClassMetadata\<close>: \<^verbatim>\<open>hostClass\<close> is \<^verbatim>\<open>node.parent\<close>. A name is missing when the node
  has none or when its text is empty (\<^verbatim>\<open>!className\<close>, \<^verbatim>\<open>!propertyName\<close>). The assignment
  \<^verbatim>\<open>metadata[propertyName] = objectLiteral\<close> replaces the value of a key that is there and
  appends a new key otherwise. \<^verbatim>\<open>metadata\<close> is a plain object: the assignment to
  \<^verbatim>\<open>__proto__\<close> sets its prototype and adds no key.
\<close>

definition addClassMetadata ::
  "class_declaration \<Rightarrow> property \<Rightarrow> expr \<Rightarrow> class_metadata \<Rightarrow> class_metadata" where
  "addClassMetadata hostClass node objectLiteral metadata =
     (case className hostClass of
        None \<Rightarrow> metadata
      | Some name \<Rightarrow>
          if name = [] then metadata
          else (case propName node of
                  None \<Rightarrow> metadata
                | Some (kind, propertyName) \<Rightarrow>
                    if propertyName = [] \<or> kind = ComputedPropertyName then metadata
                    else if propertyName = ''__proto__'' then metadata
                    else AList.update propertyName objectLiteral metadata))"

text \<open>
  \<^verbatim>\<open>inspectPropertyDeclaration\<close> passes an empty node array as \<^verbatim>\<open>existingProperties\<close> and
  the source file of the visit.
\<close>

definition inspectPropertyDeclaration ::
  "'ty checker \<Rightarrow> class_declaration \<Rightarrow> property \<Rightarrow> plugin_options \<Rightarrow> string \<Rightarrow> class_metadata
     \<Rightarrow> error + class_metadata" where
  "inspectPropertyDeclaration tc hostClass compilerNode options hostFilename metadata =
     (case createDecoratorObjectLiteralExpr tc compilerNode [] options hostFilename True of
        Inl e \<Rightarrow> Inl e
      | Inr properties \<Rightarrow>
          Inr (addClassMetadata hostClass compilerNode (ObjectLiteralExpression properties) metadata))"

text \<open>
  The visitor made by \<^verbatim>\<open>propertyNodeVisitorFactory(metadata)\<close>. It returns the node it was
  given in every branch; what it changes is \<^verbatim>\<open>metadata\<close>, which the model returns. The
  \<^verbatim>\<open>catch\<close> clause returns the node and drops the error.
\<close>

definition propertyNodeVisitor ::
  "'ty checker \<Rightarrow> class_declaration \<Rightarrow> plugin_options \<Rightarrow> string \<Rightarrow> class_metadata \<Rightarrow> class_member
     \<Rightarrow> class_metadata" where
  "propertyNodeVisitor tc hostClass options hostFilename metadata member =
     (case member of
        PropertyDeclaration node \<Rightarrow>
          if getDecoratorOrUndefinedByNames [''ApiHideProperty''] (decorators node) \<noteq> None then metadata
          else if list_ex (\<lambda>m. m = StaticKeyword) (modifiers node) then metadata
          else (case inspectPropertyDeclaration tc hostClass node options hostFilename metadata of
                  Inl err \<Rightarrow> metadata
                | Inr metadata' \<Rightarrow> metadata')
      | _ \<Rightarrow> metadata)"

text \<open>\<^verbatim>\<open>ts.visitEachChild\<close> of the class with that visitor, from a given metadata object.\<close>

definition visitMembers ::
  "'ty checker \<Rightarrow> class_declaration \<Rightarrow> plugin_options \<Rightarrow> string \<Rightarrow> class_metadata \<Rightarrow> class_member list
     \<Rightarrow> class_metadata" where
  "visitMembers tc hostClass options hostFilename metadata ms =
     foldl (propertyNodeVisitor tc hostClass options hostFilename) metadata ms"

text \<open>
  \<^verbatim>\<open>Object.keys\<close> of a plain object lists the keys that are array indices first, in
  ascending numeric order, then the other keys in the order they were inserted. An
  array index is the decimal text, without leading zero, of an integer below
  \<open>2^32 - 1\<close>.
\<close>

definition digitsValue :: "string \<Rightarrow> nat" where
  "digitsValue s = foldl (\<lambda>n c. 10 * n + (of_char c - 48)) 0 s"

definition isArrayIndex :: "string \<Rightarrow> bool" where
  "isArrayIndex s =
     (s \<noteq> [] \<and> list_all (\<lambda>c. c \<in> set ''0123456789'') s
      \<and> (s = ''0'' \<or> hd s \<noteq> CHR ''0'') \<and> digitsValue s < 2 ^ 32 - 1)"

definition objectKeys :: "class_metadata \<Rightarrow> string list" where
  "objectKeys m =
     sort_key digitsValue (filter isArrayIndex (map fst m))
     @ filter (\<lambda>key. \<not> isArrayIndex key) (map fst m)"

text \<open>
  \<^verbatim>\<open>addMetadataFactory\<close>: the static method whose body returns the object literal of the
  metadata, one assignment \<^verbatim>\<open>key: classMetadata[key]\<close> for each key of \<^verbatim>\<open>Object.keys\<close>,
  appended to the members. \<^verbatim>\<open>factoryName\<close> stands for the constant
  \<^verbatim>\<open>METADATA_FACTORY_NAME\<close> of \<^verbatim>\<open>../plugin-constants\<close>.
\<close>

definition addMetadataFactory :: "string \<Rightarrow> class_declaration \<Rightarrow> class_metadata \<Rightarrow> class_declaration" where
  "addMetadataFactory factoryName node classMetadata =
     node\<lparr>members := members node
            @ [MethodDeclaration [StaticKeyword] factoryName
                 (ObjectLiteralExpression
                    (List.map_filter (\<lambda>key. map_option (Pair key) (map_of classMetadata key))
                       (objectKeys classMetadata)))]\<rparr>"

definition visitClassNode ::
  "'ty checker \<Rightarrow> string \<Rightarrow> plugin_options \<Rightarrow> string \<Rightarrow> class_declaration \<Rightarrow> class_declaration" where
  "visitClassNode tc factoryName options hostFilename node =
     addMetadataFactory factoryName node (visitMembers tc node options hostFilename [] (members node))"

section \<open>A small type checker for concrete runs\<close>

text \<open>
  Type handles of a checker that knows \<^verbatim>\<open>string\<close>, \<^verbatim>\<open>number\<close> and one enum \<^verbatim>\<open>Role\<close> with
  the members \<^verbatim>\<open>Role.Admin\<close> and \<^verbatim>\<open>Role.User\<close>: it
  names a class-like type, yields no reference for an enum or an array of an enum,
  \<^verbatim>\<open>Object\<close> for a union, and types an optional property as the union of \<^verbatim>\<open>undefined\<close>
  and the declared type. The documentation of every property is the given pair.
\<close>

datatype sample_type =
    SString | SNumber | SEnum string | SArray sample_type | SUnion "sample_type list"
  | SUndefined | SObject | SEnumMember string

fun sampleReference :: "sample_type \<Rightarrow> string option" where
  "sampleReference SString = Some ''String''"
| "sampleReference SNumber = Some ''Number''"
| "sampleReference (SEnum n) = None"
| "sampleReference (SArray t) = map_option (\<lambda>r. ''['' @ r @ '']'') (sampleReference t)"
| "sampleReference (SUnion ts) = Some ''Object''"
| "sampleReference SUndefined = None"
| "sampleReference SObject = Some ''Object''"
| "sampleReference (SEnumMember n) = None"

fun sampleTypeOfText :: "string \<Rightarrow> sample_type" where
  "sampleTypeOfText text =
     (if text = ''string'' then SString
      else if text = ''number'' then SNumber
      else if text = ''Role'' then SEnum ''Role''
      else if text = ''Role[]'' then SArray (SEnum ''Role'')
      else if text = ''Role.Admin[]'' then SArray (SEnumMember ''Role.Admin'')
      else if text = ''(Role | undefined)[]''
        then SArray (SUnion [SUndefined, SEnumMember ''Role.Admin'', SEnumMember ''Role.User''])
      else SObject)"

fun sampleTypeOfNode :: "type_node \<Rightarrow> sample_type" where
  "sampleTypeOfNode (OtherTypeNode isNullKeyword text) = sampleTypeOfText text"
| "sampleTypeOfNode (UnionTypeNode ts) = SUnion (map sampleTypeOfNode ts)"
| "sampleTypeOfNode (TypeLiteralNode ms) = SObject"

fun sampleIsUnion :: "sample_type \<Rightarrow> bool" where
  "sampleIsUnion (SUnion ts) = (length ts = 2 \<and> SUndefined \<in> set ts)"
| "sampleIsUnion t = False"

fun sampleUnionTypes :: "sample_type \<Rightarrow> sample_type list" where
  "sampleUnionTypes (SUnion ts) = ts"
| "sampleUnionTypes t = []"

fun sampleExtract :: "sample_type \<Rightarrow> (sample_type \<times> bool) option" where
  "sampleExtract (SArray t) = Some (t, True)"
| "sampleExtract t = Some (t, False)"

fun sampleIsEnum :: "sample_type \<Rightarrow> bool" where
  "sampleIsEnum (SEnum n) = True"
| "sampleIsEnum t = False"

fun sampleIsMember :: "sample_type \<Rightarrow> bool" where
  "sampleIsMember (SEnumMember n) = True"
| "sampleIsMember t = False"

fun sampleEnumUnion :: "sample_type \<Rightarrow> sample_type option" where
  "sampleEnumUnion (SUnion ts) =
     (if SUndefined \<in> set ts \<and> list_all (\<lambda>t. t = SUndefined \<or> sampleIsMember t) ts
      then Some (SEnum ''Role'') else None)"
| "sampleEnumUnion t = None"

fun sampleText :: "sample_type \<Rightarrow> string" where
  "sampleText (SEnum n) = n"
| "sampleText (SEnumMember n) = n"
| "sampleText SString = ''string''"
| "sampleText SNumber = ''number''"
| "sampleText t = ''object''"

definition sampleChecker :: "string \<times> any_value list \<Rightarrow> sample_type checker" where
  "sampleChecker doc =
     \<lparr>getTypeAtLocation = map_option sampleTypeOfNode,
      getTypeOfProperty = (\<lambda>p. map_option
         (\<lambda>t. if questionToken p then SUnion [SUndefined, sampleTypeOfNode t] else sampleTypeOfNode t)
         (propType p)),
      getTypeReferenceAsString = sampleReference,
      replaceImportPath = (\<lambda>typeReference hostFilename. typeReference),
      isAutoGeneratedTypeUnion = sampleIsUnion,
      unionTypes = sampleUnionTypes,
      extractTypeArgumentIfArray = sampleExtract,
      symbolIsEnumMember = sampleIsMember,
      isEnum = sampleIsEnum,
      isAutoGeneratedEnumUnion = sampleEnumUnion,
      getText = sampleText,
      getMainCommentAndExamplesOfNode = (\<lambda>p. doc)\<rparr>"

text \<open>Properties for concrete runs: \<^verbatim>\<open>name?: string\<close>, \<^verbatim>\<open>age: number = 3\<close>,
  \<^verbatim>\<open>tags: { [key: string]: string }\<close> (a type literal whose member has no name),
  \<^verbatim>\<open>roles: Role[]\<close> and \<^verbatim>\<open>owner: { name?: string }\<close>.\<close>

definition sampleName :: property where
  "sampleName = Property (Some (IdentifierName, ''name'')) True (Some (OtherTypeNode False ''string'')) None [] []"

definition sampleAge :: property where
  "sampleAge = Property (Some (IdentifierName, ''age'')) False (Some (OtherTypeNode False ''number''))
     (Some (OtherExpression ''3'')) [] []"

definition sampleIndexed :: property where
  "sampleIndexed = Property (Some (IdentifierName, ''tags'')) False
     (Some (TypeLiteralNode [Property None False (Some (OtherTypeNode False ''string'')) None [] []]))
     None [] []"

definition sampleRoles :: property where
  "sampleRoles = Property (Some (IdentifierName, ''roles'')) False (Some (OtherTypeNode False ''Role[]'')) None [] []"

text \<open>
  \<^verbatim>\<open>admins: Role.Admin[]\<close>, an array of a single enum member; \<^verbatim>\<open>guests: (Role | undefined)[]\<close>;
  \<^verbatim>\<open>level: number\<close> with the four validation annotations; and a checker that yields the
  reference \<^verbatim>\<open>Object\<close> for every type.
\<close>

definition sampleAdmins :: property where
  "sampleAdmins = Property (Some (IdentifierName, ''admins'')) False
     (Some (OtherTypeNode False ''Role.Admin[]'')) None [] []"

definition sampleGuests :: property where
  "sampleGuests = Property (Some (IdentifierName, ''guests'')) False
     (Some (OtherTypeNode False ''(Role | undefined)[]'')) None [] []"

definition sampleLevel :: property where
  "sampleLevel = Property (Some (IdentifierName, ''level'')) False (Some (OtherTypeNode False ''number'')) None
     [Decorator ''Min'' [OtherExpression ''1''], Decorator ''Max'' [OtherExpression ''9''],
      Decorator ''MinLength'' [OtherExpression ''2''], Decorator ''MaxLength'' [OtherExpression ''5'']] []"

definition namingChecker :: "sample_type checker" where
  "namingChecker = (sampleChecker ([], []))\<lparr>getTypeReferenceAsString := (\<lambda>t. Some ''Object'')\<rparr>"


section \<open>Facts about the resolvers\<close>

text \<open>
  The two recursive equations are unfolded by hand, one case of the type node at a time.
\<close>

declare createDecoratorObjectLiteralExpr.simps [simp del]
declare createTypePropertyAssignments.simps [simp del]

lemma hasPropertyKey_iff: "hasPropertyKey key ps \<longleftrightarrow> (\<exists>v. (key, v) \<in> set ps)"
  by (force simp: hasPropertyKey_def list_ex_iff)

lemma hasPropertyKey_image: "hasPropertyKey key ps \<longleftrightarrow> key \<in> fst ` set ps"
  by (force simp: hasPropertyKey_iff)

lemma hasPropertyKey_append:
  "hasPropertyKey key (ps @ qs) \<longleftrightarrow> hasPropertyKey key ps \<or> hasPropertyKey key qs"
  by (auto simp: hasPropertyKey_iff)

lemma hasPropertyKey_keys:
  "fst ` set ps \<subseteq> S \<Longrightarrow> K \<notin> S \<Longrightarrow> \<not> hasPropertyKey K ps"
  by (auto simp: hasPropertyKey_image)

lemma typeReferenceAssignments_keys:
  "fst ` set (typeReferenceAssignments tc node hostFilename) \<subseteq> {''type''}"
  by (auto simp: typeReferenceAssignments_def split: option.splits if_splits)

lemma createTypePropertyAssignments_explicit:
  "hasPropertyKey ''type'' existingProperties \<Longrightarrow>
   createTypePropertyAssignments tc node existingProperties hostFilename = Inr []"
  by (simp add: createTypePropertyAssignments.simps)

lemma createTypePropertyAssignments_literal:
  "\<not> hasPropertyKey ''type'' existingProperties \<Longrightarrow>
   createTypePropertyAssignments tc (Some (TypeLiteralNode ms)) existingProperties hostFilename =
     (case typeLiteralMembers tc ms existingProperties hostFilename of
        Inl e \<Rightarrow> Inl e
      | Inr propertyAssignments \<Rightarrow>
          Inr [(''type'', ArrowFunction (ParenthesizedExpression
                             (ObjectLiteralExpression propertyAssignments)))])"
  by (simp add: createTypePropertyAssignments.simps)

lemma createTypePropertyAssignments_union_single:
  "\<not> hasPropertyKey ''type'' existingProperties \<Longrightarrow> remainingTypes types = [remaining] \<Longrightarrow>
   createTypePropertyAssignments tc (Some (UnionTypeNode types)) existingProperties hostFilename =
     (case createTypePropertyAssignments tc (Some remaining) existingProperties hostFilename of
        Inl e \<Rightarrow> Inl e
      | Inr remainingTypesProperties \<Rightarrow>
          Inr (remainingTypesProperties
               @ (if nullableType types \<noteq> None then [(''nullable'', createBooleanLiteral True)] else [])))"
  by (simp add: createTypePropertyAssignments.simps [of tc "Some (UnionTypeNode types)"])

lemma createTypePropertyAssignments_union_other:
  "\<not> hasPropertyKey ''type'' existingProperties \<Longrightarrow> length (remainingTypes types) \<noteq> 1 \<Longrightarrow>
   createTypePropertyAssignments tc (Some (UnionTypeNode types)) existingProperties hostFilename =
     Inr (typeReferenceAssignments tc (Some (UnionTypeNode types)) hostFilename)"
  by (cases "remainingTypes types"; cases "tl (remainingTypes types)")
     (simp_all add: createTypePropertyAssignments.simps [of tc "Some (UnionTypeNode types)"])

lemma createTypePropertyAssignments_other:
  "\<not> hasPropertyKey ''type'' existingProperties \<Longrightarrow>
   createTypePropertyAssignments tc (Some (OtherTypeNode k text)) existingProperties hostFilename =
     Inr (typeReferenceAssignments tc (Some (OtherTypeNode k text)) hostFilename)"
  by (simp add: createTypePropertyAssignments.simps)

lemma createTypePropertyAssignments_none:
  "\<not> hasPropertyKey ''type'' existingProperties \<Longrightarrow>
   createTypePropertyAssignments tc None existingProperties hostFilename =
     Inr (typeReferenceAssignments tc None hostFilename)"
  by (simp add: createTypePropertyAssignments.simps)

lemma createTypePropertyAssignments_keys:
  "createTypePropertyAssignments tc node existingProperties hostFilename = Inr assignments \<Longrightarrow>
   fst ` set assignments \<subseteq> {''type'', ''nullable''}"
proof (induction tc node existingProperties hostFilename arbitrary: assignments
    rule: createDecoratorObjectLiteralExpr_createTypePropertyAssignments_typeLiteralMembers.induct(2)
      [where P = "\<lambda>tc node ex opts host sf. True" and R = "\<lambda>tc ms ex host. True"])
  case (2 tc node existingProperties hostFilename)
  show ?case
  proof (cases "hasPropertyKey ''type'' existingProperties")
    case True
    then show ?thesis using "2.prems" by (simp add: createTypePropertyAssignments_explicit)
  next
    case False
    note noType = False
    have viaChecker: ?thesis
      if "createTypePropertyAssignments tc node existingProperties hostFilename
          = Inr (typeReferenceAssignments tc node hostFilename)"
      using that "2.prems" typeReferenceAssignments_keys [of tc node hostFilename] by auto
    show ?thesis
    proof (cases node)
      case None
      then show ?thesis using viaChecker noType by (simp add: createTypePropertyAssignments_none)
    next
      case (Some tn)
      show ?thesis
      proof (cases tn)
        case (TypeLiteralNode ms)
        then show ?thesis using "2.prems" noType Some
          by (auto simp: createTypePropertyAssignments_literal split: sum.splits)
      next
        case (UnionTypeNode types)
        show ?thesis
        proof (cases "\<exists>r. remainingTypes types = [r]")
          case True
          then obtain r where r: "remainingTypes types = [r]" by blast
          from "2.prems" noType Some UnionTypeNode r
          obtain ps where ps: "createTypePropertyAssignments tc (Some r) existingProperties hostFilename = Inr ps"
            and as: "assignments = ps @ (if nullableType types \<noteq> None then [(''nullable'', createBooleanLiteral True)] else [])"
            by (auto simp: createTypePropertyAssignments_union_single split: sum.splits)
          have "fst ` set ps \<subseteq> {''type'', ''nullable''}"
            using "2.IH" [OF noType Some UnionTypeNode r refl ps] .
          then show ?thesis using as by auto
        next
          case False
          then have "length (remainingTypes types) \<noteq> 1"
            by (cases "remainingTypes types") auto
          then show ?thesis using viaChecker noType Some UnionTypeNode
            by (simp add: createTypePropertyAssignments_union_other)
        qed
      next
        case (OtherTypeNode k str)
        then show ?thesis using viaChecker noType Some
          by (simp add: createTypePropertyAssignments_other)
      qed
    qed
  qed
qed simp_all

lemma createTypePropertyAssignments_guarded:
  assumes "createTypePropertyAssignments tc node existingProperties hostFilename = Inr assignments"
    and "hasPropertyKey K existingProperties" and "K \<noteq> ''nullable''"
  shows "\<not> hasPropertyKey K assignments"
proof (cases "K = ''type''")
  case True
  then show ?thesis using assms(1,2)
    by (simp add: createTypePropertyAssignments_explicit hasPropertyKey_def)
next
  case False
  then show ?thesis
    using createTypePropertyAssignments_keys [OF assms(1)] assms(3)
    by (auto simp: hasPropertyKey_image)
qed

lemma createTypePropertyAssignments_guarded_unless:
  assumes "createTypePropertyAssignments tc node existingProperties hostFilename = Inr assignments"
    and "hasPropertyKey K existingProperties"
    and "K = ''nullable'' \<longrightarrow> hasPropertyKey ''type'' existingProperties"
  shows "\<not> hasPropertyKey K assignments"
proof (cases "hasPropertyKey ''type'' existingProperties")
  case True
  then show ?thesis using assms(1)
    by (simp add: createTypePropertyAssignments_explicit hasPropertyKey_def)
next
  case False
  then have "K \<noteq> ''nullable''" using assms(3) by blast
  with assms(1,2) show ?thesis by (rule createTypePropertyAssignments_guarded)
qed

lemma enumAssignmentsOfType_keys:
  "fst ` set (enumAssignmentsOfType tc hostFilename ty) \<subseteq> {''enum'', ''isArray''}"
  by (auto simp: enumAssignmentsOfType_def Let_def split: option.splits if_splits prod.splits)

lemma createEnumPropertyAssignment_explicit:
  "hasPropertyKey ''enum'' existingProperties \<Longrightarrow>
   createEnumPropertyAssignment tc node existingProperties hostFilename = Inr []"
  by (simp add: createEnumPropertyAssignment_def)

lemma createEnumPropertyAssignment_keys:
  "createEnumPropertyAssignment tc node existingProperties hostFilename = Inr assignments \<Longrightarrow>
   fst ` set assignments \<subseteq> {''enum'', ''isArray''}"
  using enumAssignmentsOfType_keys [of tc hostFilename]
  by (auto simp: createEnumPropertyAssignment_def split: option.splits if_splits list.splits)

lemma createEnumPropertyAssignment_guarded:
  assumes "createEnumPropertyAssignment tc node existingProperties hostFilename = Inr assignments"
    and "hasPropertyKey K existingProperties" and "K \<noteq> ''isArray''"
  shows "\<not> hasPropertyKey K assignments"
proof (cases "K = ''enum''")
  case True
  then show ?thesis using assms(1,2)
    by (simp add: createEnumPropertyAssignment_explicit hasPropertyKey_def)
next
  case False
  then show ?thesis
    using createEnumPropertyAssignment_keys [OF assms(1)] assms(3)
    by (auto simp: hasPropertyKey_image)
qed

lemma createEnumPropertyAssignment_guarded_unless:
  assumes "createEnumPropertyAssignment tc node existingProperties hostFilename = Inr assignments"
    and "hasPropertyKey K existingProperties"
    and "K = ''isArray'' \<longrightarrow> hasPropertyKey ''enum'' existingProperties"
  shows "\<not> hasPropertyKey K assignments"
proof (cases "hasPropertyKey ''enum'' existingProperties")
  case True
  then show ?thesis using assms(1)
    by (simp add: createEnumPropertyAssignment_explicit hasPropertyKey_def)
next
  case False
  then have "K \<noteq> ''isArray''" using assms(3) by blast
  with assms(1,2) show ?thesis by (rule createEnumPropertyAssignment_guarded)
qed

lemma enumAssignmentsOfType_getTypeOfProperty:
  "enumAssignmentsOfType (tc\<lparr>getTypeOfProperty := f\<rparr>) hostFilename ty
   = enumAssignmentsOfType tc hostFilename ty"
  by (simp add: enumAssignmentsOfType_def Let_def cong: option.case_cong if_cong)

lemma createDefaultPropertyAssignment_key:
  "createDefaultPropertyAssignment node existingProperties = Some a \<Longrightarrow>
   fst a = ''default'' \<and> \<not> hasPropertyKey ''default'' existingProperties"
  by (auto simp: createDefaultPropertyAssignment_def split: option.splits if_splits expr.splits)

lemma defaultAssignment_keys:
  "fst ` set (case createDefaultPropertyAssignment node existingProperties of None \<Rightarrow> [] | Some a \<Rightarrow> [a])
     \<subseteq> {''default''}"
  by (auto simp: createDefaultPropertyAssignment_def split: option.splits if_splits)

lemma defaultAssignment_guarded:
  "hasPropertyKey K existingProperties \<Longrightarrow>
   \<not> hasPropertyKey K
      (case createDefaultPropertyAssignment node existingProperties of None \<Rightarrow> [] | Some a \<Rightarrow> [a])"
  by (auto simp: createDefaultPropertyAssignment_def hasPropertyKey_iff split: option.splits if_splits)

lemma requiredAssignment_guarded:
  "hasPropertyKey K existingProperties \<Longrightarrow>
   \<not> hasPropertyKey K (if hasPropertyKey ''required'' existingProperties then []
          else [(''required'', createBooleanLiteral (\<not> questionToken node))])"
  by (auto simp: hasPropertyKey_iff)

lemma addPropertyByValidationDecorator_keys:
  "fst ` set (addPropertyByValidationDecorator name key ds assignments) \<subseteq> insert key (fst ` set assignments)"
  by (auto simp: addPropertyByValidationDecorator_def split: option.splits list.splits)

lemma createValidationPropertyAssignments_keys:
  "fst ` set (createValidationPropertyAssignments node)
     \<subseteq> {''minimum'', ''maximum'', ''minLength'', ''maxLength''}"
proof -
  let ?ds = "decorators node"
  let ?a1 = "addPropertyByValidationDecorator ''Min'' ''minimum'' ?ds []"
  let ?a2 = "addPropertyByValidationDecorator ''Max'' ''maximum'' ?ds ?a1"
  let ?a3 = "addPropertyByValidationDecorator ''MinLength'' ''minLength'' ?ds ?a2"
  let ?a4 = "addPropertyByValidationDecorator ''MaxLength'' ''maxLength'' ?ds ?a3"
  have 1: "fst ` set ?a1 \<subseteq> {''minimum''}"
    using addPropertyByValidationDecorator_keys [of "''Min''" "''minimum''" ?ds "[]"] by simp
  have 2: "fst ` set ?a2 \<subseteq> {''minimum'', ''maximum''}"
    using addPropertyByValidationDecorator_keys [of "''Max''" "''maximum''" ?ds ?a1] 1 by blast
  have 3: "fst ` set ?a3 \<subseteq> {''minimum'', ''maximum'', ''minLength''}"
    using addPropertyByValidationDecorator_keys [of "''MinLength''" "''minLength''" ?ds ?a2] 2 by blast
  have 4: "fst ` set ?a4 \<subseteq> {''minimum'', ''maximum'', ''minLength'', ''maxLength''}"
    using addPropertyByValidationDecorator_keys [of "''MaxLength''" "''maxLength''" ?ds ?a3] 3 by blast
  show ?thesis unfolding createValidationPropertyAssignments_def using 4 .
qed

lemma createDescriptionAndExamplePropertyAssigments_guarded:
  assumes "hasPropertyKey K existingProperties"
  shows "\<not> hasPropertyKey K
       (createDescriptionAndExamplePropertyAssigments tc node existingProperties options hasSourceFile)"
proof (cases "getMainCommentAndExamplesOfNode tc node")
  case (Pair comments examples)
  then show ?thesis using assms
    by (cases examples; cases "tl examples")
       (auto simp: createDescriptionAndExamplePropertyAssigments_def hasPropertyKey_iff Let_def
          split: if_splits)
qed

lemma createDecoratorObjectLiteralExpr_Inr:
  assumes "createDecoratorObjectLiteralExpr tc node existingProperties options hostFilename hasSourceFile
           = Inr properties"
  obtains typeAssignments enumAssignments where
    "createTypePropertyAssignments tc (propType node) existingProperties hostFilename = Inr typeAssignments"
    "createEnumPropertyAssignment tc node existingProperties hostFilename = Inr enumAssignments"
    "properties = existingProperties
       @ (if hasPropertyKey ''required'' existingProperties then []
          else [(''required'', createBooleanLiteral (\<not> questionToken node))])
       @ typeAssignments
       @ createDescriptionAndExamplePropertyAssigments tc node existingProperties options hasSourceFile
       @ (case createDefaultPropertyAssignment node existingProperties of None \<Rightarrow> [] | Some a \<Rightarrow> [a])
       @ enumAssignments
       @ (if classValidatorShim options then createValidationPropertyAssignments node else [])"
  using assms
  by (auto simp: createDecoratorObjectLiteralExpr.simps split: sum.splits)

lemma filter_keys_empty:
  "\<not> hasPropertyKey ''example'' ps \<Longrightarrow> \<not> hasPropertyKey ''examples'' ps \<Longrightarrow>
   filter (\<lambda>a. fst a = ''example'' \<or> fst a = ''examples'') ps = []"
  by (auto simp: hasPropertyKey_iff filter_empty_conv)

lemma addClassMetadata_unnamed:
  "className hostClass = None \<or> className hostClass = Some [] \<Longrightarrow>
   addClassMetadata hostClass node objectLiteral metadata = metadata"
  by (auto simp: addClassMetadata_def)

lemma propertyNodeVisitor_unnamed:
  "className hostClass = None \<or> className hostClass = Some [] \<Longrightarrow>
   propertyNodeVisitor tc hostClass options hostFilename metadata member = metadata"
  by (auto simp: propertyNodeVisitor_def inspectPropertyDeclaration_def addClassMetadata_unnamed
      split: class_member.splits sum.splits)

lemma visitMembers_unnamed:
  "className hostClass = None \<or> className hostClass = Some [] \<Longrightarrow>
   visitMembers tc hostClass options hostFilename metadata ms = metadata"
  unfolding visitMembers_def
  by (induction ms arbitrary: metadata) (simp_all add: propertyNodeVisitor_unnamed)












lemma description_type_key:
  "hasPropertyKey ''type''
     (createDescriptionAndExamplePropertyAssigments tc node existingProperties options hasSourceFile)
   \<longleftrightarrow> introspectComments options \<and> hasSourceFile \<and> dtoKeyOfComment options = ''type''
       \<and> \<not> hasPropertyKey ''type'' existingProperties
       \<and> fst (getMainCommentAndExamplesOfNode tc node) \<noteq> []"
proof (cases "getMainCommentAndExamplesOfNode tc node")
  case (Pair comments examples)
  then show ?thesis
    by (cases examples; cases "tl examples")
       (auto simp: createDescriptionAndExamplePropertyAssigments_def hasPropertyKey_iff Let_def
          split: if_splits)
qed

lemma record_type_key:
  assumes run: "createDecoratorObjectLiteralExpr tc node existingProperties options hostFilename hasSourceFile
                = Inr properties"
    and ty: "createTypePropertyAssignments tc (propType node) existingProperties hostFilename = Inr typeAssignments"
  shows "hasPropertyKey ''type'' properties \<longleftrightarrow>
           hasPropertyKey ''type'' existingProperties \<or> hasPropertyKey ''type'' typeAssignments
           \<or> (introspectComments options \<and> hasSourceFile \<and> dtoKeyOfComment options = ''type''
               \<and> fst (getMainCommentAndExamplesOfNode tc node) \<noteq> [])"
proof -
  from run obtain typeAssignments' enumAssignments where
    ty': "createTypePropertyAssignments tc (propType node) existingProperties hostFilename = Inr typeAssignments'"
    and en: "createEnumPropertyAssignment tc node existingProperties hostFilename = Inr enumAssignments"
    and props: "properties = existingProperties
       @ (if hasPropertyKey ''required'' existingProperties then []
          else [(''required'', createBooleanLiteral (\<not> questionToken node))])
       @ typeAssignments'
       @ createDescriptionAndExamplePropertyAssigments tc node existingProperties options hasSourceFile
       @ (case createDefaultPropertyAssignment node existingProperties of None \<Rightarrow> [] | Some a \<Rightarrow> [a])
       @ enumAssignments
       @ (if classValidatorShim options then createValidationPropertyAssignments node else [])"
    by (rule createDecoratorObjectLiteralExpr_Inr)
  have same: "typeAssignments' = typeAssignments" using ty ty' by simp
  have req: "\<not> hasPropertyKey ''type'' (if hasPropertyKey ''required'' existingProperties then []
          else [(''required'', createBooleanLiteral (\<not> questionToken node))])"
    by (simp add: hasPropertyKey_def)
  have dflt: "\<not> hasPropertyKey ''type''
        (case createDefaultPropertyAssignment node existingProperties of None \<Rightarrow> [] | Some a \<Rightarrow> [a])"
    using defaultAssignment_keys [of node existingProperties]
    by (rule hasPropertyKey_keys) simp
  have enum: "\<not> hasPropertyKey ''type'' enumAssignments"
    using createEnumPropertyAssignment_keys [OF en] by (rule hasPropertyKey_keys) simp
  have valid: "\<not> hasPropertyKey ''type''
        (if classValidatorShim options then createValidationPropertyAssignments node else [])"
    using createValidationPropertyAssignments_keys [of node]
    by (auto simp: hasPropertyKey_image)
  have "hasPropertyKey ''type'' properties \<longleftrightarrow>
          hasPropertyKey ''type'' existingProperties \<or> hasPropertyKey ''type'' typeAssignments
          \<or> hasPropertyKey ''type''
               (createDescriptionAndExamplePropertyAssigments tc node existingProperties options hasSourceFile)"
    unfolding props same hasPropertyKey_append using req dflt enum valid by blast
  then show ?thesis unfolding description_type_key by blast
qed

text \<open>Concrete runs are evaluated by rewriting with the definitions.\<close>

lemmas sample_defs =
  sampleChecker_def hasPropertyKey_def nullableType_def typeReferenceAssignments_def
  createEnumPropertyAssignment_def enumAssignmentsOfType_def createBooleanLiteral_def
  createPrimitiveLiteral_def createDescriptionAndExamplePropertyAssigments_def emptyOptions_def
  createDefaultPropertyAssignment_def createValidationPropertyAssignments_def
  addPropertyByValidationDecorator_def getDecoratorOrUndefinedByNames_def
  createDecoratorObjectLiteralExpr.simps createTypePropertyAssignments.simps

lemma sampleName_record:
  "createDecoratorObjectLiteralExpr (sampleChecker ([], [])) sampleName [] emptyOptions [] True
   = Inr [(''required'', BooleanLiteral False), (''type'', ArrowFunction (Identifier ''String''))]"
  by (simp add: sample_defs sampleName_def)

lemma sampleAge_record:
  "createDecoratorObjectLiteralExpr (sampleChecker ([], [])) sampleAge [] emptyOptions [] True
   = Inr [(''required'', BooleanLiteral True), (''type'', ArrowFunction (Identifier ''Number'')),
          (''default'', OtherExpression ''3'')]"
  by (simp add: sample_defs sampleAge_def)

lemma sampleIndexed_record:
  "createDecoratorObjectLiteralExpr (sampleChecker ([], [])) sampleIndexed [] emptyOptions [] True
   = Inl TypeError"
  by (simp add: sample_defs sampleIndexed_def)

section \<open>Explicit annotations come first\<close>

text \<open>
  Claim C1, as the code has it. The record of a property begins with its explicit
  assignments, in their order. For a key \<open>K\<close> among the explicit keys no resolver adds an
  assignment for \<open>K\<close>, so that the assignments for \<open>K\<close> in the record are the explicit
  ones, in every case but three: \<open>K\<close> is \<open>nullable\<close> and \<open>type\<close> is not explicit; \<open>K\<close> is
  \<open>isArray\<close> and \<open>enum\<close> is not explicit; \<open>K\<close> is one of \<open>minimum\<close>, \<open>maximum\<close>,
  \<open>minLength\<close>, \<open>maxLength\<close> and the validation resolver is switched on.
\<close>

theorem explicit_annotations_first:
  assumes "createDecoratorObjectLiteralExpr tc node existingProperties options hostFilename hasSourceFile
           = Inr properties"
  shows "take (length existingProperties) properties = existingProperties
       \<and> (\<forall>K. hasPropertyKey K existingProperties
               \<and> (K = ''nullable'' \<longrightarrow> hasPropertyKey ''type'' existingProperties)
               \<and> (K = ''isArray'' \<longrightarrow> hasPropertyKey ''enum'' existingProperties)
               \<and> (K \<in> {''minimum'', ''maximum'', ''minLength'', ''maxLength''} \<longrightarrow>
                     \<not> classValidatorShim options) \<longrightarrow>
             \<not> hasPropertyKey K (drop (length existingProperties) properties)
             \<and> filter (\<lambda>a. fst a = K) properties = filter (\<lambda>a. fst a = K) existingProperties)"
proof -
  from assms obtain typeAssignments enumAssignments where
    ty: "createTypePropertyAssignments tc (propType node) existingProperties hostFilename = Inr typeAssignments"
    and en: "createEnumPropertyAssignment tc node existingProperties hostFilename = Inr enumAssignments"
    and props: "properties = existingProperties
       @ (if hasPropertyKey ''required'' existingProperties then []
          else [(''required'', createBooleanLiteral (\<not> questionToken node))])
       @ typeAssignments
       @ createDescriptionAndExamplePropertyAssigments tc node existingProperties options hasSourceFile
       @ (case createDefaultPropertyAssignment node existingProperties of None \<Rightarrow> [] | Some a \<Rightarrow> [a])
       @ enumAssignments
       @ (if classValidatorShim options then createValidationPropertyAssignments node else [])"
    by (rule createDecoratorObjectLiteralExpr_Inr)
  let ?inferred = "(if hasPropertyKey ''required'' existingProperties then []
          else [(''required'', createBooleanLiteral (\<not> questionToken node))])
       @ typeAssignments
       @ createDescriptionAndExamplePropertyAssigments tc node existingProperties options hasSourceFile
       @ (case createDefaultPropertyAssignment node existingProperties of None \<Rightarrow> [] | Some a \<Rightarrow> [a])
       @ enumAssignments
       @ (if classValidatorShim options then createValidationPropertyAssignments node else [])"
  have split: "properties = existingProperties @ ?inferred" using props by simp
  have first: "take (length existingProperties) properties = existingProperties"
    and rest: "drop (length existingProperties) properties = ?inferred"
    using split by simp_all
  have guarded: "\<not> hasPropertyKey K ?inferred"
    if K: "hasPropertyKey K existingProperties"
      and nullable: "K = ''nullable'' \<longrightarrow> hasPropertyKey ''type'' existingProperties"
      and isArray: "K = ''isArray'' \<longrightarrow> hasPropertyKey ''enum'' existingProperties"
      and bounds: "K \<in> {''minimum'', ''maximum'', ''minLength'', ''maxLength''} \<longrightarrow>
                     \<not> classValidatorShim options"
    for K
  proof -
    have valid: "\<not> hasPropertyKey K
        (if classValidatorShim options then createValidationPropertyAssignments node else [])"
    proof (cases "classValidatorShim options")
      case True
      then have "K \<notin> {''minimum'', ''maximum'', ''minLength'', ''maxLength''}" using bounds by blast
      then have "\<not> hasPropertyKey K (createValidationPropertyAssignments node)"
        using createValidationPropertyAssignments_keys [of node] by (rule hasPropertyKey_keys [rotated])
      then show ?thesis using True by simp
    next
      case False
      then show ?thesis by (simp add: hasPropertyKey_def)
    qed
    show ?thesis
      unfolding hasPropertyKey_append
      using requiredAssignment_guarded [OF K] createTypePropertyAssignments_guarded_unless [OF ty K nullable]
        createDescriptionAndExamplePropertyAssigments_guarded [OF K]
        defaultAssignment_guarded [OF K] createEnumPropertyAssignment_guarded_unless [OF en K isArray]
        valid
      by simp
  qed
  have same: "filter (\<lambda>a. fst a = K) properties = filter (\<lambda>a. fst a = K) existingProperties"
    if "\<not> hasPropertyKey K ?inferred" for K
  proof -
    have "filter (\<lambda>a. fst a = K) ?inferred = []"
      using that by (auto simp: hasPropertyKey_iff filter_empty_conv)
    then show ?thesis by (subst split) (simp only: filter_append append_Nil2)
  qed
  show ?thesis
  proof (intro conjI allI impI)
    show "take (length existingProperties) properties = existingProperties" by (rule first)
  next
    fix K
    assume "hasPropertyKey K existingProperties
               \<and> (K = ''nullable'' \<longrightarrow> hasPropertyKey ''type'' existingProperties)
               \<and> (K = ''isArray'' \<longrightarrow> hasPropertyKey ''enum'' existingProperties)
               \<and> (K \<in> {''minimum'', ''maximum'', ''minLength'', ''maxLength''} \<longrightarrow>
                     \<not> classValidatorShim options)"
    then have "\<not> hasPropertyKey K ?inferred" using guarded by (elim conjE)
    then show "\<not> hasPropertyKey K (drop (length existingProperties) properties)"
      using arg_cong [OF rest, of "hasPropertyKey K"] by blast
  next
    fix K
    assume "hasPropertyKey K existingProperties
               \<and> (K = ''nullable'' \<longrightarrow> hasPropertyKey ''type'' existingProperties)
               \<and> (K = ''isArray'' \<longrightarrow> hasPropertyKey ''enum'' existingProperties)
               \<and> (K \<in> {''minimum'', ''maximum'', ''minLength'', ''maxLength''} \<longrightarrow>
                     \<not> classValidatorShim options)"
    then have "\<not> hasPropertyKey K ?inferred" using guarded by (elim conjE)
    then show "filter (\<lambda>a. fst a = K) properties = filter (\<lambda>a. fst a = K) existingProperties"
      by (rule same)
  qed
qed

text \<open>
  The theorem at a property of type \<^verbatim>\<open>string | null\<close> with explicit \<open>type\<close> and
  \<open>nullable\<close>: the explicit \<open>type\<close> keeps the resolver from adding \<open>nullable\<close>.
\<close>

theorem explicit_annotations_first_witness:
  "createDecoratorObjectLiteralExpr (sampleChecker ([], []))
     (Property (Some (IdentifierName, ''name'')) False
        (Some (UnionTypeNode [OtherTypeNode False ''string'', OtherTypeNode True ''null''])) None [] [])
     [(''type'', ArrowFunction (Identifier ''Number'')), (''nullable'', BooleanLiteral False)]
     emptyOptions [] True
   = Inr [(''type'', ArrowFunction (Identifier ''Number'')), (''nullable'', BooleanLiteral False),
          (''required'', BooleanLiteral True)]
   \<and> filter (\<lambda>a. fst a = ''nullable'')
        [(''type'', ArrowFunction (Identifier ''Number'')), (''nullable'', BooleanLiteral False),
         (''required'', BooleanLiteral True)]
     = [(''nullable'', BooleanLiteral False)]
   \<and> filter (\<lambda>a. fst a = ''type'')
        [(''type'', ArrowFunction (Identifier ''Number'')), (''nullable'', BooleanLiteral False),
         (''required'', BooleanLiteral True)]
     = [(''type'', ArrowFunction (Identifier ''Number''))]"
proof -
  have run: "createDecoratorObjectLiteralExpr (sampleChecker ([], []))
     (Property (Some (IdentifierName, ''name'')) False
        (Some (UnionTypeNode [OtherTypeNode False ''string'', OtherTypeNode True ''null''])) None [] [])
     [(''type'', ArrowFunction (Identifier ''Number'')), (''nullable'', BooleanLiteral False)]
     emptyOptions [] True
   = Inr [(''type'', ArrowFunction (Identifier ''Number'')), (''nullable'', BooleanLiteral False),
          (''required'', BooleanLiteral True)]"
    by (simp add: sample_defs)
  from explicit_annotations_first [OF run] run
  show ?thesis by (simp add: hasPropertyKey_def)
qed

text \<open>
  Claim C1 as stated fails in each of the three cases: with \<open>nullable\<close> explicit (and
  \<open>type\<close> not) and the declared type \<^verbatim>\<open>string | null\<close>, with \<open>isArray\<close> explicit (and
  \<open>enum\<close> not) and the declared type \<^verbatim>\<open>Role[]\<close>, and with the four bounds explicit, the
  four validation annotations present and the validation resolver switched on, a
  resolver adds a second assignment, with another value, behind the explicit one.
\<close>

theorem unguarded_keys_inferred_beside_explicit:
  "createDecoratorObjectLiteralExpr (sampleChecker ([], []))
       (Property (Some (IdentifierName, ''name'')) False
          (Some (UnionTypeNode [OtherTypeNode False ''string'', OtherTypeNode True ''null''])) None [] [])
       [(''nullable'', BooleanLiteral False)] emptyOptions [] True
     = Inr [(''nullable'', BooleanLiteral False), (''required'', BooleanLiteral True),
            (''type'', ArrowFunction (Identifier ''String'')), (''nullable'', BooleanLiteral True)]
   \<and> createDecoratorObjectLiteralExpr (sampleChecker ([], [])) sampleRoles
       [(''isArray'', Identifier ''false'')] emptyOptions [] True
     = Inr [(''isArray'', Identifier ''false''), (''required'', BooleanLiteral True),
            (''enum'', Identifier ''Role''), (''isArray'', Identifier ''true'')]
   \<and> createDecoratorObjectLiteralExpr (sampleChecker ([], [])) sampleLevel
       [(''minimum'', OtherExpression ''0''), (''maximum'', OtherExpression ''0''),
        (''minLength'', OtherExpression ''0''), (''maxLength'', OtherExpression ''0'')]
       \<lparr>introspectComments = False, classValidatorShim = True, dtoKeyOfComment = ''description''\<rparr> [] True
     = Inr [(''minimum'', OtherExpression ''0''), (''maximum'', OtherExpression ''0''),
            (''minLength'', OtherExpression ''0''), (''maxLength'', OtherExpression ''0''),
            (''required'', BooleanLiteral True), (''type'', ArrowFunction (Identifier ''Number'')),
            (''minimum'', OtherExpression ''1''), (''maximum'', OtherExpression ''9''),
            (''minLength'', OtherExpression ''2''), (''maxLength'', OtherExpression ''5'')]"
  by (simp add: sample_defs sampleRoles_def sampleLevel_def)

section \<open>A failing property is left out of the scan\<close>

text \<open>
  Claim C2. If resolving a property raises an error, the visitor leaves the metadata of
  the class as it was, so the property contributes no entry, and the scan of the members
  gives what it gives without that property. The visitor returns a metadata map in
  every case: the error goes no further.
\<close>

theorem failing_property_is_left_out:
  assumes "createDecoratorObjectLiteralExpr tc node [] options hostFilename True = Inl e"
  shows "propertyNodeVisitor tc hostClass options hostFilename metadata (PropertyDeclaration node) = metadata
       \<and> visitMembers tc hostClass options hostFilename metadata (before @ PropertyDeclaration node # after)
         = visitMembers tc hostClass options hostFilename metadata (before @ after)"
proof -
  have step: "propertyNodeVisitor tc hostClass options hostFilename m (PropertyDeclaration node) = m" for m
    using assms by (simp add: propertyNodeVisitor_def inspectPropertyDeclaration_def)
  show ?thesis using step by (simp add: visitMembers_def)
qed

text \<open>
  The theorem at a class \<^verbatim>\<open>Cat\<close> whose second property has a type literal with an index
  signature, a member without a name.
\<close>

theorem failing_property_is_left_out_witness:
  "createDecoratorObjectLiteralExpr (sampleChecker ([], [])) sampleIndexed [] emptyOptions [] True
     = Inl TypeError
   \<and> visitMembers (sampleChecker ([], [])) \<lparr>className = Some ''Cat'', members = []\<rparr> emptyOptions [] []
       [PropertyDeclaration sampleName, PropertyDeclaration sampleIndexed, PropertyDeclaration sampleAge]
     = [(''name'', ObjectLiteralExpression
           [(''required'', BooleanLiteral False), (''type'', ArrowFunction (Identifier ''String''))]),
        (''age'', ObjectLiteralExpression
           [(''required'', BooleanLiteral True), (''type'', ArrowFunction (Identifier ''Number'')),
            (''default'', OtherExpression ''3'')])]"
proof -
  have run: "visitMembers (sampleChecker ([], [])) \<lparr>className = Some ''Cat'', members = []\<rparr> emptyOptions [] []
       [PropertyDeclaration sampleName, PropertyDeclaration sampleAge]
     = [(''name'', ObjectLiteralExpression
           [(''required'', BooleanLiteral False), (''type'', ArrowFunction (Identifier ''String''))]),
        (''age'', ObjectLiteralExpression
           [(''required'', BooleanLiteral True), (''type'', ArrowFunction (Identifier ''Number'')),
            (''default'', OtherExpression ''3'')])]"
    by (simp add: visitMembers_def propertyNodeVisitor_def inspectPropertyDeclaration_def
        addClassMetadata_def sample_defs sampleName_def sampleAge_def)
  show ?thesis
    using failing_property_is_left_out
      [OF sampleIndexed_record, of "\<lparr>className = Some ''Cat'', members = []\<rparr>" "[]"
         "[PropertyDeclaration sampleName]" "[PropertyDeclaration sampleAge]"] run sampleIndexed_record
    by simp
qed

section \<open>Nullable unions\<close>

text \<open>
  Claim C3, as the code has it. For a union of one member \<open>T\<close> that is not null-like and
  one null-like member, in either order, and with no explicit \<open>type\<close>, the type resolver
  contributes what it contributes for \<open>T\<close> alone, followed by \<open>nullable = true\<close>. When \<open>T\<close>
  is a plain type expression for which the checker yields the non-empty reference \<open>r\<close>,
  that is \<open>type = () => r'\<close> (with \<open>r'\<close> the reference after import-path rewriting) and
  \<open>nullable = true\<close>; when the checker yields no type or no reference for it, that is
  \<open>nullable = true\<close> alone.
\<close>

theorem nullable_union_unwrapped:
  assumes "\<not> hasPropertyKey ''type'' existingProperties"
    and "isNullLike nullNode" and "\<not> isNullLike T"
    and "types = [T, nullNode] \<or> types = [nullNode, T]"
  shows "createTypePropertyAssignments tc (Some (UnionTypeNode types)) existingProperties hostFilename
         = (case createTypePropertyAssignments tc (Some T) existingProperties hostFilename of
              Inl e \<Rightarrow> Inl e
            | Inr assignments \<Rightarrow> Inr (assignments @ [(''nullable'', BooleanLiteral True)]))
       \<and> (\<forall>k str ty typeReference.
             T = OtherTypeNode k str \<and> getTypeAtLocation tc (Some T) = Some ty
             \<and> getTypeReferenceAsString tc ty = Some typeReference \<and> typeReference \<noteq> [] \<longrightarrow>
             createTypePropertyAssignments tc (Some (UnionTypeNode types)) existingProperties hostFilename
             = Inr [(''type'', ArrowFunction (Identifier (replaceImportPath tc typeReference hostFilename))),
                    (''nullable'', BooleanLiteral True)])
       \<and> (\<forall>k str.
             T = OtherTypeNode k str
             \<and> (getTypeAtLocation tc (Some T) = None
                \<or> (\<exists>ty. getTypeAtLocation tc (Some T) = Some ty
                        \<and> (getTypeReferenceAsString tc ty = None \<or> getTypeReferenceAsString tc ty = Some []))) \<longrightarrow>
             createTypePropertyAssignments tc (Some (UnionTypeNode types)) existingProperties hostFilename
             = Inr [(''nullable'', BooleanLiteral True)])"
proof -
  have rem: "remainingTypes types = [T]" and nul: "nullableType types \<noteq> None"
    using assms(2-4) by (auto simp: nullableType_def)
  have 1: "createTypePropertyAssignments tc (Some (UnionTypeNode types)) existingProperties hostFilename
         = (case createTypePropertyAssignments tc (Some T) existingProperties hostFilename of
              Inl e \<Rightarrow> Inl e
            | Inr assignments \<Rightarrow> Inr (assignments @ [(''nullable'', BooleanLiteral True)]))"
    using createTypePropertyAssignments_union_single [OF assms(1) rem, of tc hostFilename] nul
    by (simp add: createBooleanLiteral_def cong: sum.case_cong)
  have 2: "createTypePropertyAssignments tc (Some T) existingProperties hostFilename
           = Inr [(''type'', ArrowFunction (Identifier (replaceImportPath tc typeReference hostFilename)))]"
    if "T = OtherTypeNode k str" "getTypeAtLocation tc (Some T) = Some ty"
       "getTypeReferenceAsString tc ty = Some typeReference" "typeReference \<noteq> []"
    for k str ty typeReference
    using that assms(1)
    by (simp add: createTypePropertyAssignments_other typeReferenceAssignments_def)
  have 3: "createTypePropertyAssignments tc (Some T) existingProperties hostFilename = Inr []"
    if "T = OtherTypeNode k str"
       "getTypeAtLocation tc (Some T) = None
                \<or> (\<exists>ty. getTypeAtLocation tc (Some T) = Some ty
                        \<and> (getTypeReferenceAsString tc ty = None \<or> getTypeReferenceAsString tc ty = Some []))"
    for k str
    using that assms(1)
    by (auto simp: createTypePropertyAssignments_other typeReferenceAssignments_def)
  show ?thesis
  proof (intro conjI allI impI)
    show "createTypePropertyAssignments tc (Some (UnionTypeNode types)) existingProperties hostFilename
         = (case createTypePropertyAssignments tc (Some T) existingProperties hostFilename of
              Inl e \<Rightarrow> Inl e
            | Inr assignments \<Rightarrow> Inr (assignments @ [(''nullable'', BooleanLiteral True)]))"
      by (rule 1)
  next
    fix k str ty typeReference
    assume "T = OtherTypeNode k str \<and> getTypeAtLocation tc (Some T) = Some ty
             \<and> getTypeReferenceAsString tc ty = Some typeReference \<and> typeReference \<noteq> []"
    then have "createTypePropertyAssignments tc (Some T) existingProperties hostFilename
           = Inr [(''type'', ArrowFunction (Identifier (replaceImportPath tc typeReference hostFilename)))]"
      using 2 by (elim conjE)
    then show "createTypePropertyAssignments tc (Some (UnionTypeNode types)) existingProperties hostFilename
             = Inr [(''type'', ArrowFunction (Identifier (replaceImportPath tc typeReference hostFilename))),
                    (''nullable'', BooleanLiteral True)]"
      using 1 by simp
  next
    fix k str
    assume "T = OtherTypeNode k str
             \<and> (getTypeAtLocation tc (Some T) = None
                \<or> (\<exists>ty. getTypeAtLocation tc (Some T) = Some ty
                        \<and> (getTypeReferenceAsString tc ty = None \<or> getTypeReferenceAsString tc ty = Some [])))"
    then have "createTypePropertyAssignments tc (Some T) existingProperties hostFilename = Inr []"
      using 3 by (elim conjE)
    then show "createTypePropertyAssignments tc (Some (UnionTypeNode types)) existingProperties hostFilename
             = Inr [(''nullable'', BooleanLiteral True)]"
      using 1 by simp
  qed
qed

theorem nullable_union_unwrapped_witness:
  "createTypePropertyAssignments (sampleChecker ([], []))
     (Some (UnionTypeNode [OtherTypeNode False ''string'', OtherTypeNode True ''null''])) [] []
   = Inr [(''type'', ArrowFunction (Identifier ''String'')), (''nullable'', BooleanLiteral True)]
   \<and> createTypePropertyAssignments (sampleChecker ([], []))
     (Some (UnionTypeNode [OtherTypeNode True ''null'', OtherTypeNode False ''Role''])) [] []
   = Inr [(''nullable'', BooleanLiteral True)]"
  using nullable_union_unwrapped
    [of "[]" "OtherTypeNode True ''null''" "OtherTypeNode False ''string''"
        "[OtherTypeNode False ''string'', OtherTypeNode True ''null'']" "sampleChecker ([], [])" "[]"]
    nullable_union_unwrapped
    [of "[]" "OtherTypeNode True ''null''" "OtherTypeNode False ''Role''"
        "[OtherTypeNode True ''null'', OtherTypeNode False ''Role'']" "sampleChecker ([], [])" "[]"]
  by (simp add: sampleChecker_def hasPropertyKey_def createTypePropertyAssignments_other
      typeReferenceAssignments_def)

text \<open>
  Claim C3 as stated fails: for \<^verbatim>\<open>Role | null\<close>, with \<^verbatim>\<open>Role\<close> an enum for which the
  checker yields no reference, the type resolver contributes \<open>nullable\<close> and no \<open>type\<close>.
\<close>

theorem nullable_union_of_enum_has_no_type:
  "\<not> hasPropertyKey ''type'' []
   \<and> isNullLike (OtherTypeNode True ''null'') \<and> \<not> isNullLike (OtherTypeNode False ''Role'')
   \<and> createTypePropertyAssignments (sampleChecker ([], []))
       (Some (UnionTypeNode [OtherTypeNode False ''Role'', OtherTypeNode True ''null''])) [] []
     = Inr [(''nullable'', BooleanLiteral True)]"
  by (simp add: sample_defs)

section \<open>Unions of several members\<close>

text \<open>
  Claim C4, as the code has it. For a union with two or more members left after the
  null-like member is removed, the type resolver falls through to the lookup of the
  union node itself in the checker: it contributes \<open>type\<close> when the checker yields a
  reference for the union as a whole, nothing otherwise, and never \<open>nullable\<close>.
\<close>

theorem multi_variant_union_resolved_as_a_whole:
  assumes "2 \<le> length (remainingTypes types)"
  shows "createTypePropertyAssignments tc (Some (UnionTypeNode types)) existingProperties hostFilename
         = Inr (if hasPropertyKey ''type'' existingProperties then []
                else case getTypeAtLocation tc (Some (UnionTypeNode types)) of
                       None \<Rightarrow> []
                     | Some ty \<Rightarrow>
                         (case getTypeReferenceAsString tc ty of
                            None \<Rightarrow> []
                          | Some typeReference \<Rightarrow>
                              if typeReference = [] then []
                              else [(''type'', ArrowFunction
                                       (Identifier (replaceImportPath tc typeReference hostFilename)))]))"
proof (cases "hasPropertyKey ''type'' existingProperties")
  case True
  then show ?thesis by (simp add: createTypePropertyAssignments_explicit)
next
  case False
  have "length (remainingTypes types) \<noteq> 1" using assms by simp
  from createTypePropertyAssignments_union_other [OF False this, of tc hostFilename] False
  show ?thesis by (simp add: typeReferenceAssignments_def)
qed

theorem multi_variant_union_resolved_as_a_whole_witness:
  "createTypePropertyAssignments (sampleChecker ([], []))
     (Some (UnionTypeNode [OtherTypeNode False ''string'', OtherTypeNode False ''number'',
                           OtherTypeNode True ''null''])) [] []
   = Inr [(''type'', ArrowFunction (Identifier ''Object''))]"
  using multi_variant_union_resolved_as_a_whole
    [of "[OtherTypeNode False ''string'', OtherTypeNode False ''number'', OtherTypeNode True ''null'']"
        "sampleChecker ([], [])" "[]" "[]"]
  by (simp add: sampleChecker_def hasPropertyKey_def)

text \<open>
  Claim C4 as stated fails: for \<^verbatim>\<open>string | number\<close> and a checker that names a union
  \<^verbatim>\<open>Object\<close>, the type resolver contributes a \<open>type\<close> key.
\<close>

theorem two_variant_union_gets_type:
  "length (remainingTypes [OtherTypeNode False ''string'', OtherTypeNode False ''number'']) = 2
   \<and> createTypePropertyAssignments (sampleChecker ([], []))
       (Some (UnionTypeNode [OtherTypeNode False ''string'', OtherTypeNode False ''number''])) [] []
     = Inr [(''type'', ArrowFunction (Identifier ''Object''))]"
  by (simp add: sample_defs)

section \<open>Arrays of enums\<close>

text \<open>
  Claim C5, as the code has it. Let \<open>enum\<close> not be explicit, let the working type be the
  resolved type of the property, or its last constituent when the checker reports it as
  an auto-generated union, and let unwrapping the working type give the type \<open>E\<close> and the
  array flag. If \<open>E\<close> is an enum and not a single enum member, the enum resolver
  contributes \<open>enum = E\<close>, and \<open>isArray = true\<close> exactly when the flag is set. Otherwise it
  unwraps once more, \<open>E\<close> itself when \<open>E\<close> is a single member and else the enum of the
  auto-generated enum union \<open>E\<close>, and contributes \<open>enum\<close> and \<open>isArray\<close> from that second
  unwrapping alone (nothing when it fails): the first array flag is dropped. The enum
  resolver has no part in the \<open>type\<close> key: the record carries one exactly when \<open>type\<close> is
  explicit, or the type resolver contributes one for the declared type, or the
  documentation enricher is enabled with the description key \<open>type\<close> and finds a
  description.
\<close>

theorem array_of_enum:
  assumes "\<not> hasPropertyKey ''enum'' existingProperties"
    and "getTypeOfProperty tc node = Some ty"
    and "isAutoGeneratedTypeUnion tc ty \<longrightarrow> unionTypes tc ty \<noteq> []"
    and "extractTypeArgumentIfArray tc (if isAutoGeneratedTypeUnion tc ty then last (unionTypes tc ty) else ty)
         = Some (E, isArrayType)"
  shows "(isEnum tc E \<and> \<not> symbolIsEnumMember tc E \<longrightarrow>
            createEnumPropertyAssignment tc node existingProperties hostFilename
            = Inr ((''enum'', Identifier (replaceImportPath tc (getText tc E) hostFilename))
                   # (if isArrayType then [(''isArray'', Identifier ''true'')] else [])))
       \<and> (\<not> isEnum tc E \<or> symbolIsEnumMember tc E \<longrightarrow>
            createEnumPropertyAssignment tc node existingProperties hostFilename
            = Inr (case (if symbolIsEnumMember tc E then Some E else isAutoGeneratedEnumUnion tc E) of
                     None \<Rightarrow> []
                   | Some again \<Rightarrow>
                       (case extractTypeArgumentIfArray tc again of
                          None \<Rightarrow> []
                        | Some (E', isArrayType') \<Rightarrow>
                            (''enum'', Identifier (replaceImportPath tc (getText tc E') hostFilename))
                            # (if isArrayType' then [(''isArray'', Identifier ''true'')] else []))))
       \<and> (\<forall>properties typeAssignments.
            createDecoratorObjectLiteralExpr tc node existingProperties options hostFilename hasSourceFile
              = Inr properties
            \<and> createTypePropertyAssignments tc (propType node) existingProperties hostFilename
              = Inr typeAssignments \<longrightarrow>
            (hasPropertyKey ''type'' properties \<longleftrightarrow>
               hasPropertyKey ''type'' existingProperties \<or> hasPropertyKey ''type'' typeAssignments
               \<or> (introspectComments options \<and> hasSourceFile \<and> dtoKeyOfComment options = ''type''
                   \<and> fst (getMainCommentAndExamplesOfNode tc node) \<noteq> [])))"
proof -
  let ?working = "if isAutoGeneratedTypeUnion tc ty then last (unionTypes tc ty) else ty"
  have en: "createEnumPropertyAssignment tc node existingProperties hostFilename
            = Inr (enumAssignmentsOfType tc hostFilename ?working)"
  proof (cases "isAutoGeneratedTypeUnion tc ty")
    case True
    then obtain t ts where "unionTypes tc ty = t # ts"
      using assms(3) by (cases "unionTypes tc ty") auto
    then show ?thesis using True assms(1,2)
      by (simp add: createEnumPropertyAssignment_def)
  next
    case False
    then show ?thesis using assms(1,2)
      by (simp add: createEnumPropertyAssignment_def)
  qed
  have first: "enumAssignmentsOfType tc hostFilename ?working
            = (''enum'', Identifier (replaceImportPath tc (getText tc E) hostFilename))
                   # (if isArrayType then [(''isArray'', Identifier ''true'')] else [])"
    if "isEnum tc E" "\<not> symbolIsEnumMember tc E"
    using that assms(4) by (simp add: enumAssignmentsOfType_def)
  have second: "enumAssignmentsOfType tc hostFilename ?working
            = (case (if symbolIsEnumMember tc E then Some E else isAutoGeneratedEnumUnion tc E) of
                     None \<Rightarrow> []
                   | Some again \<Rightarrow>
                       (case extractTypeArgumentIfArray tc again of
                          None \<Rightarrow> []
                        | Some (E', isArrayType') \<Rightarrow>
                            (''enum'', Identifier (replaceImportPath tc (getText tc E') hostFilename))
                            # (if isArrayType' then [(''isArray'', Identifier ''true'')] else [])))"
    if "\<not> isEnum tc E \<or> symbolIsEnumMember tc E"
    using that assms(4)
    by (auto simp: enumAssignmentsOfType_def Let_def split: option.splits)
  show ?thesis
  proof (intro conjI allI impI)
    assume "isEnum tc E \<and> \<not> symbolIsEnumMember tc E"
    then show "createEnumPropertyAssignment tc node existingProperties hostFilename
            = Inr ((''enum'', Identifier (replaceImportPath tc (getText tc E) hostFilename))
                   # (if isArrayType then [(''isArray'', Identifier ''true'')] else []))"
      using en first by simp
  next
    assume "\<not> isEnum tc E \<or> symbolIsEnumMember tc E"
    then show "createEnumPropertyAssignment tc node existingProperties hostFilename
            = Inr (case (if symbolIsEnumMember tc E then Some E else isAutoGeneratedEnumUnion tc E) of
                     None \<Rightarrow> []
                   | Some again \<Rightarrow>
                       (case extractTypeArgumentIfArray tc again of
                          None \<Rightarrow> []
                        | Some (E', isArrayType') \<Rightarrow>
                            (''enum'', Identifier (replaceImportPath tc (getText tc E') hostFilename))
                            # (if isArrayType' then [(''isArray'', Identifier ''true'')] else [])))"
      using en second by simp
  next
    fix properties typeAssignments
    assume "createDecoratorObjectLiteralExpr tc node existingProperties options hostFilename hasSourceFile
              = Inr properties
            \<and> createTypePropertyAssignments tc (propType node) existingProperties hostFilename
              = Inr typeAssignments"
    then show "hasPropertyKey ''type'' properties \<longleftrightarrow>
               hasPropertyKey ''type'' existingProperties \<or> hasPropertyKey ''type'' typeAssignments
               \<or> (introspectComments options \<and> hasSourceFile \<and> dtoKeyOfComment options = ''type''
                   \<and> fst (getMainCommentAndExamplesOfNode tc node) \<noteq> [])"
      using record_type_key by (elim conjE)
  qed
qed

text \<open>
  The theorem at \<^verbatim>\<open>roles: Role[]\<close> and at \<^verbatim>\<open>admins: Role.Admin[]\<close>.
\<close>

theorem array_of_enum_witness:
  "createEnumPropertyAssignment (sampleChecker ([], [])) sampleRoles [] []
     = Inr [(''enum'', Identifier ''Role''), (''isArray'', Identifier ''true'')]
   \<and> createDecoratorObjectLiteralExpr (sampleChecker ([], [])) sampleRoles [] emptyOptions [] True
     = Inr [(''required'', BooleanLiteral True), (''enum'', Identifier ''Role''),
            (''isArray'', Identifier ''true'')]
   \<and> \<not> hasPropertyKey ''type''
         [(''required'', BooleanLiteral True), (''enum'', Identifier ''Role''),
          (''isArray'', Identifier ''true'')]
   \<and> createEnumPropertyAssignment (sampleChecker ([], [])) sampleAdmins [] []
     = Inr [(''enum'', Identifier ''Role.Admin'')]"
proof -
  have run: "createDecoratorObjectLiteralExpr (sampleChecker ([], [])) sampleRoles [] emptyOptions [] True
     = Inr [(''required'', BooleanLiteral True), (''enum'', Identifier ''Role''),
            (''isArray'', Identifier ''true'')]"
    by (simp add: sample_defs sampleRoles_def)
  have ty: "createTypePropertyAssignments (sampleChecker ([], [])) (propType sampleRoles) [] [] = Inr []"
    by (simp add: sample_defs sampleRoles_def)
  have hyps: "\<not> hasPropertyKey ''enum'' []"
    "getTypeOfProperty (sampleChecker ([], [])) sampleRoles = Some (SArray (SEnum ''Role''))"
    "isAutoGeneratedTypeUnion (sampleChecker ([], [])) (SArray (SEnum ''Role'')) \<longrightarrow>
       unionTypes (sampleChecker ([], [])) (SArray (SEnum ''Role'')) \<noteq> []"
    "extractTypeArgumentIfArray (sampleChecker ([], []))
       (if isAutoGeneratedTypeUnion (sampleChecker ([], [])) (SArray (SEnum ''Role''))
        then last (unionTypes (sampleChecker ([], [])) (SArray (SEnum ''Role'')))
        else SArray (SEnum ''Role'')) = Some (SEnum ''Role'', True)"
    by (simp_all add: sampleChecker_def sampleRoles_def hasPropertyKey_def)
  have member: "\<not> hasPropertyKey ''enum'' []"
    "getTypeOfProperty (sampleChecker ([], [])) sampleAdmins = Some (SArray (SEnumMember ''Role.Admin''))"
    "isAutoGeneratedTypeUnion (sampleChecker ([], [])) (SArray (SEnumMember ''Role.Admin'')) \<longrightarrow>
       unionTypes (sampleChecker ([], [])) (SArray (SEnumMember ''Role.Admin'')) \<noteq> []"
    "extractTypeArgumentIfArray (sampleChecker ([], []))
       (if isAutoGeneratedTypeUnion (sampleChecker ([], [])) (SArray (SEnumMember ''Role.Admin''))
        then last (unionTypes (sampleChecker ([], [])) (SArray (SEnumMember ''Role.Admin'')))
        else SArray (SEnumMember ''Role.Admin'')) = Some (SEnumMember ''Role.Admin'', True)"
    by (simp_all add: sampleChecker_def sampleAdmins_def hasPropertyKey_def)
  from array_of_enum [OF hyps, of "[]" emptyOptions True]
    array_of_enum [OF member, of "[]" emptyOptions True] run ty
  show ?thesis by (simp add: sampleChecker_def emptyOptions_def hasPropertyKey_def)
qed

text \<open>
  Claim C5 as stated fails. The record of \<^verbatim>\<open>roles: Role[]\<close> carries a \<open>type\<close> key beside
  \<open>enum\<close> and \<open>isArray\<close> when \<open>type\<close> is explicit, when the checker yields a reference for
  the declared type, and when the description key is \<open>type\<close>. For an array of a single
  enum member and for an array of an auto-generated enum union the enum resolver
  contributes \<open>enum\<close> without \<open>isArray\<close>.
\<close>

theorem enum_array_counterexamples:
  "createDecoratorObjectLiteralExpr (sampleChecker ([], [])) sampleRoles
       [(''type'', ArrowFunction (Identifier ''String''))] emptyOptions [] True
     = Inr [(''type'', ArrowFunction (Identifier ''String'')), (''required'', BooleanLiteral True),
            (''enum'', Identifier ''Role''), (''isArray'', Identifier ''true'')]
   \<and> createDecoratorObjectLiteralExpr namingChecker sampleRoles [] emptyOptions [] True
     = Inr [(''required'', BooleanLiteral True), (''type'', ArrowFunction (Identifier ''Object'')),
            (''enum'', Identifier ''Role''), (''isArray'', Identifier ''true'')]
   \<and> createDecoratorObjectLiteralExpr (sampleChecker (''Roles'', [])) sampleRoles []
       \<lparr>introspectComments = True, classValidatorShim = False, dtoKeyOfComment = ''type''\<rparr> [] True
     = Inr [(''required'', BooleanLiteral True), (''type'', StringLiteral ''Roles''),
            (''enum'', Identifier ''Role''), (''isArray'', Identifier ''true'')]
   \<and> getTypeOfProperty (sampleChecker ([], [])) sampleAdmins = Some (SArray (SEnumMember ''Role.Admin''))
   \<and> createEnumPropertyAssignment (sampleChecker ([], [])) sampleAdmins [] []
     = Inr [(''enum'', Identifier ''Role.Admin'')]
   \<and> getTypeOfProperty (sampleChecker ([], [])) sampleGuests
     = Some (SArray (SUnion [SUndefined, SEnumMember ''Role.Admin'', SEnumMember ''Role.User'']))
   \<and> createEnumPropertyAssignment (sampleChecker ([], [])) sampleGuests [] []
     = Inr [(''enum'', Identifier ''Role'')]"
  by (simp add: sample_defs namingChecker_def sampleRoles_def sampleAdmins_def sampleGuests_def)

section \<open>Auto-generated unions in the enum resolver\<close>

text \<open>
  Claim C6. When the checker reports the resolved type of the property as an
  auto-generated union, the enum resolver goes on with the last constituent of the union:
  array unwrapping and enum detection see that constituent only, so the result is the one
  the resolver gives for a property whose resolved type is that constituent.
\<close>

theorem auto_generated_union_last_constituent:
  assumes "\<not> hasPropertyKey ''enum'' existingProperties"
    and "getTypeOfProperty tc node = Some ty"
    and "isAutoGeneratedTypeUnion tc ty"
    and "unionTypes tc ty \<noteq> []"
  shows "createEnumPropertyAssignment tc node existingProperties hostFilename
           = Inr (enumAssignmentsOfType tc hostFilename (last (unionTypes tc ty)))
         \<and> (\<not> isAutoGeneratedTypeUnion tc (last (unionTypes tc ty)) \<longrightarrow>
             createEnumPropertyAssignment tc node existingProperties hostFilename
             = createEnumPropertyAssignment (tc\<lparr>getTypeOfProperty := (\<lambda>p. Some (last (unionTypes tc ty)))\<rparr>)
                 node existingProperties hostFilename)"
proof -
  obtain t ts where ts: "unionTypes tc ty = t # ts"
    using assms(4) by (cases "unionTypes tc ty") auto
  have 1: "createEnumPropertyAssignment tc node existingProperties hostFilename
           = Inr (enumAssignmentsOfType tc hostFilename (last (unionTypes tc ty)))"
    using assms(1-3) ts by (simp add: createEnumPropertyAssignment_def)
  have 2: "createEnumPropertyAssignment (tc\<lparr>getTypeOfProperty := (\<lambda>p. Some (last (unionTypes tc ty)))\<rparr>)
             node existingProperties hostFilename
           = Inr (enumAssignmentsOfType tc hostFilename (last (unionTypes tc ty)))"
    if "\<not> isAutoGeneratedTypeUnion tc (last (unionTypes tc ty))"
    using that assms(1)
    by (simp add: createEnumPropertyAssignment_def enumAssignmentsOfType_getTypeOfProperty)
  show ?thesis using 1 2 by simp
qed

theorem auto_generated_union_last_constituent_witness:
  "createEnumPropertyAssignment (sampleChecker ([], []))
     (Property (Some (IdentifierName, ''roles'')) True (Some (OtherTypeNode False ''Role[]'')) None [] [])
     [] []
   = Inr (enumAssignmentsOfType (sampleChecker ([], [])) [] (SArray (SEnum ''Role'')))
   \<and> enumAssignmentsOfType (sampleChecker ([], [])) [] (SArray (SEnum ''Role''))
     = [(''enum'', Identifier ''Role''), (''isArray'', Identifier ''true'')]"
  using auto_generated_union_last_constituent
    [of "[]" "sampleChecker ([], [])"
        "Property (Some (IdentifierName, ''roles'')) True (Some (OtherTypeNode False ''Role[]'')) None [] []"
        "SUnion [SUndefined, SArray (SEnum ''Role'')]" "[]"]
  by (simp add: sampleChecker_def hasPropertyKey_def enumAssignmentsOfType_def)

section \<open>Examples\<close>

text \<open>
  Claim C7, as the code has it. Let the documentation enricher be enabled (comments are
  introspected and a source file is given), neither \<open>example\<close> nor \<open>examples\<close> be
  explicit, and the configured description key be neither of the two. Then the
  assignments for \<open>example\<close> and \<open>examples\<close>, among those of the enricher and in the whole
  record, are: none for no example value, the one assignment \<open>example\<close> for one value, the
  one assignment \<open>examples\<close> with the values in order for two or more.
\<close>

theorem example_cardinality:
  assumes "introspectComments options" and "hasSourceFile"
    and "\<not> hasPropertyKey ''example'' existingProperties"
    and "\<not> hasPropertyKey ''examples'' existingProperties"
    and "dtoKeyOfComment options \<noteq> ''example''"
    and "dtoKeyOfComment options \<noteq> ''examples''"
    and "getMainCommentAndExamplesOfNode tc node = (comments, examples)"
  shows "filter (\<lambda>a. fst a = ''example'' \<or> fst a = ''examples'')
           (createDescriptionAndExamplePropertyAssigments tc node existingProperties options hasSourceFile)
         = (case examples of
              [] \<Rightarrow> []
            | [example] \<Rightarrow> [(''example'', createLiteralFromAnyValue example)]
            | _ \<Rightarrow> [(''examples'', ArrayLiteralExpression (map createLiteralFromAnyValue examples))])
       \<and> (\<forall>properties.
            createDecoratorObjectLiteralExpr tc node existingProperties options hostFilename hasSourceFile
              = Inr properties \<longrightarrow>
            filter (\<lambda>a. fst a = ''example'' \<or> fst a = ''examples'') properties
            = (case examples of
                 [] \<Rightarrow> []
               | [example] \<Rightarrow> [(''example'', createLiteralFromAnyValue example)]
               | _ \<Rightarrow> [(''examples'', ArrayLiteralExpression (map createLiteralFromAnyValue examples))]))"
proof -
  let ?ex = "\<lambda>a::property_assignment. fst a = ''example'' \<or> fst a = ''examples''"
  let ?doc = "createDescriptionAndExamplePropertyAssigments tc node existingProperties options hasSourceFile"
  have enricher: "filter ?ex ?doc
         = (case examples of
              [] \<Rightarrow> []
            | [example] \<Rightarrow> [(''example'', createLiteralFromAnyValue example)]
            | _ \<Rightarrow> [(''examples'', ArrayLiteralExpression (map createLiteralFromAnyValue examples))])"
    using assms
    by (cases examples; cases "tl examples")
       (simp_all add: createDescriptionAndExamplePropertyAssigments_def Let_def)
  have whole: "filter ?ex properties = filter ?ex ?doc"
    if run: "createDecoratorObjectLiteralExpr tc node existingProperties options hostFilename hasSourceFile
              = Inr properties" for properties
  proof -
    from run obtain typeAssignments enumAssignments where
      ty: "createTypePropertyAssignments tc (propType node) existingProperties hostFilename = Inr typeAssignments"
      and en: "createEnumPropertyAssignment tc node existingProperties hostFilename = Inr enumAssignments"
      and props: "properties = existingProperties
       @ (if hasPropertyKey ''required'' existingProperties then []
          else [(''required'', createBooleanLiteral (\<not> questionToken node))])
       @ typeAssignments @ ?doc
       @ (case createDefaultPropertyAssignment node existingProperties of None \<Rightarrow> [] | Some a \<Rightarrow> [a])
       @ enumAssignments
       @ (if classValidatorShim options then createValidationPropertyAssignments node else [])"
      by (rule createDecoratorObjectLiteralExpr_Inr)
    have 0: "filter ?ex existingProperties = []"
      using assms(3,4) by (rule filter_keys_empty)
    have 1: "filter ?ex (if hasPropertyKey ''required'' existingProperties then []
          else [(''required'', createBooleanLiteral (\<not> questionToken node))]) = []"
      by simp
    have 2: "filter ?ex typeAssignments = []"
      using createTypePropertyAssignments_keys [OF ty]
      by (intro filter_keys_empty hasPropertyKey_keys [where S = "{''type'', ''nullable''}"]) simp_all
    have 3: "filter ?ex (case createDefaultPropertyAssignment node existingProperties of None \<Rightarrow> [] | Some a \<Rightarrow> [a]) = []"
      using defaultAssignment_keys [of node existingProperties]
      by (intro filter_keys_empty hasPropertyKey_keys [where S = "{''default''}"]) simp_all
    have 4: "filter ?ex enumAssignments = []"
      using createEnumPropertyAssignment_keys [OF en]
      by (intro filter_keys_empty hasPropertyKey_keys [where S = "{''enum'', ''isArray''}"]) simp_all
    have 5: "filter ?ex (createValidationPropertyAssignments node) = []"
      using createValidationPropertyAssignments_keys [of node]
      by (intro filter_keys_empty
            hasPropertyKey_keys [where S = "{''minimum'', ''maximum'', ''minLength'', ''maxLength''}"])
         simp_all
    have 6: "filter ?ex (if classValidatorShim options then createValidationPropertyAssignments node else []) = []"
      using 5 by simp
    show ?thesis
      unfolding props filter_append 0 1 2 3 4 6 by simp
  qed
  show ?thesis using enricher whole by simp
qed

theorem example_cardinality_witness:
  "filter (\<lambda>a. fst a = ''example'' \<or> fst a = ''examples'')
     (createDescriptionAndExamplePropertyAssigments
        (sampleChecker (''A name'', [AnyString ''Tom'', AnyString ''Kitty''])) sampleName []
        \<lparr>introspectComments = True, classValidatorShim = False, dtoKeyOfComment = ''description''\<rparr>
        True)
   = [(''examples'', ArrayLiteralExpression
         [PrimitiveLiteral (AnyString ''Tom''), PrimitiveLiteral (AnyString ''Kitty'')])]
   \<and> createDecoratorObjectLiteralExpr
        (sampleChecker (''A name'', [AnyString ''Tom'', AnyString ''Kitty''])) sampleName []
        \<lparr>introspectComments = True, classValidatorShim = False, dtoKeyOfComment = ''description''\<rparr>
        [] True
     = Inr [(''required'', BooleanLiteral False), (''type'', ArrowFunction (Identifier ''String'')),
            (''description'', StringLiteral ''A name''),
            (''examples'', ArrayLiteralExpression
               [PrimitiveLiteral (AnyString ''Tom''), PrimitiveLiteral (AnyString ''Kitty'')])]"
proof -
  have run: "createDecoratorObjectLiteralExpr
        (sampleChecker (''A name'', [AnyString ''Tom'', AnyString ''Kitty''])) sampleName []
        \<lparr>introspectComments = True, classValidatorShim = False, dtoKeyOfComment = ''description''\<rparr>
        [] True
     = Inr [(''required'', BooleanLiteral False), (''type'', ArrowFunction (Identifier ''String'')),
            (''description'', StringLiteral ''A name''),
            (''examples'', ArrayLiteralExpression
               [PrimitiveLiteral (AnyString ''Tom''), PrimitiveLiteral (AnyString ''Kitty'')])]"
    by (simp add: sample_defs sampleName_def)
  from example_cardinality
    [of "\<lparr>introspectComments = True, classValidatorShim = False, dtoKeyOfComment = ''description''\<rparr>"
        True "[]" "sampleChecker (''A name'', [AnyString ''Tom'', AnyString ''Kitty''])"
        sampleName "''A name''" "[AnyString ''Tom'', AnyString ''Kitty'']" "[]"] run
  show ?thesis
    by (simp add: sampleChecker_def hasPropertyKey_def createPrimitiveLiteral_def)
qed

text \<open>
  Claim C7 as stated fails when the description key is configured as \<open>examples\<close>: with
  a comment and one example value the enricher contributes both \<open>examples\<close> (the comment)
  and \<open>example\<close>.
\<close>

theorem description_key_named_examples:
  "createDescriptionAndExamplePropertyAssigments (sampleChecker (''A name'', [AnyString ''Tom'']))
     (Property (Some (IdentifierName, ''name'')) False (Some (OtherTypeNode False ''string'')) None [] [])
     []
     \<lparr>introspectComments = True, classValidatorShim = False, dtoKeyOfComment = ''examples''\<rparr>
     True
   = [(''examples'', StringLiteral ''A name''), (''example'', PrimitiveLiteral (AnyString ''Tom''))]"
  by (simp add: sample_defs)

section \<open>Default value\<close>

text \<open>
  Claim C8, as the code has it. If \<open>default\<close> is among the explicit keys, or the property
  has no initializer, the default extractor contributes nothing. Otherwise it
  contributes \<open>default\<close> with the initializer expression as it stands, except that an
  initializer of the form \<^verbatim>\<open>e as T\<close> contributes the wrapped expression \<^verbatim>\<open>e\<close> (one level
  only). Any other initializer, the angle-bracket assertion \<^verbatim>\<open><T>e\<close> among them, is
  kept as it stands.
\<close>

theorem default_from_initializer:
  "(hasPropertyKey ''default'' existingProperties \<longrightarrow>
      createDefaultPropertyAssignment node existingProperties = None)
   \<and> (initializer node = None \<longrightarrow>
      createDefaultPropertyAssignment node existingProperties = None)
   \<and> (\<not> hasPropertyKey ''default'' existingProperties \<and> initializer node = Some init \<and> \<not> isAsExpression init \<longrightarrow>
      createDefaultPropertyAssignment node existingProperties = Some (''default'', init))
   \<and> (\<not> hasPropertyKey ''default'' existingProperties \<and> initializer node = Some (AsExpression wrapped asType) \<longrightarrow>
      createDefaultPropertyAssignment node existingProperties = Some (''default'', wrapped))
   \<and> (\<not> hasPropertyKey ''default'' existingProperties
        \<and> initializer node = Some (TypeAssertionExpression assertedType operand) \<longrightarrow>
      createDefaultPropertyAssignment node existingProperties
        = Some (''default'', TypeAssertionExpression assertedType operand))"
  by (simp add: createDefaultPropertyAssignment_def)

theorem default_from_initializer_witness:
  "createDefaultPropertyAssignment
      (Property (Some (IdentifierName, ''age'')) False (Some (OtherTypeNode False ''number''))
         (Some (AsExpression (OtherExpression ''5'') ''number'')) [] []) []
     = Some (''default'', OtherExpression ''5'')
   \<and> createDefaultPropertyAssignment
      (Property (Some (IdentifierName, ''age'')) False (Some (OtherTypeNode False ''number''))
         (Some (AsExpression (AsExpression (OtherExpression ''1'') ''any'') ''number'')) [] []) []
     = Some (''default'', AsExpression (OtherExpression ''1'') ''any'')
   \<and> createDefaultPropertyAssignment
      (Property (Some (IdentifierName, ''age'')) False (Some (OtherTypeNode False ''number''))
         (Some (OtherExpression ''3'')) [] []) []
     = Some (''default'', OtherExpression ''3'')
   \<and> createDefaultPropertyAssignment
      (Property (Some (IdentifierName, ''age'')) False (Some (OtherTypeNode False ''number''))
         (Some (OtherExpression ''3'')) [] []) [(''default'', OtherExpression ''7'')]
     = None
   \<and> createDefaultPropertyAssignment
      (Property (Some (IdentifierName, ''age'')) False (Some (OtherTypeNode False ''number''))
         None [] []) []
     = None"
  using default_from_initializer
      [of "[]" "Property (Some (IdentifierName, ''age'')) False (Some (OtherTypeNode False ''number''))
         (Some (AsExpression (OtherExpression ''5'') ''number'')) [] []" "OtherExpression ''5''"
         "OtherExpression ''5''" "''number''"]
    default_from_initializer
      [of "[]" "Property (Some (IdentifierName, ''age'')) False (Some (OtherTypeNode False ''number''))
         (Some (AsExpression (AsExpression (OtherExpression ''1'') ''any'') ''number'')) [] []"
         "OtherExpression ''1''" "AsExpression (OtherExpression ''1'') ''any''" "''number''"]
    default_from_initializer
      [of "[]" "Property (Some (IdentifierName, ''age'')) False (Some (OtherTypeNode False ''number''))
         (Some (OtherExpression ''3'')) [] []" "OtherExpression ''3''"]
    default_from_initializer
      [of "[(''default'', OtherExpression ''7'')]"
          "Property (Some (IdentifierName, ''age'')) False (Some (OtherTypeNode False ''number''))
         (Some (OtherExpression ''3'')) [] []"]
    default_from_initializer
      [of "[]" "Property (Some (IdentifierName, ''age'')) False (Some (OtherTypeNode False ''number''))
         None [] []"]
  by (simp add: hasPropertyKey_def)

text \<open>
  Claim C8 as stated fails: the type assertion \<^verbatim>\<open><number>5\<close> is not unwrapped.
\<close>

theorem angle_bracket_assertion_kept:
  "\<not> hasPropertyKey ''default'' []
   \<and> createDefaultPropertyAssignment
      (Property (Some (IdentifierName, ''age'')) False (Some (OtherTypeNode False ''number''))
         (Some (TypeAssertionExpression ''number'' (OtherExpression ''5''))) [] []) []
     = Some (''default'', TypeAssertionExpression ''number'' (OtherExpression ''5''))"
  by (simp add: createDefaultPropertyAssignment_def hasPropertyKey_def)

section \<open>Classes without a name\<close>

text \<open>
  Claim C9, as the code has it. For a class without a name (none, or one whose text is
  empty), adding the record of a property leaves the metadata as it was, whatever the
  property and the record; so does the visit of any member and of any list of members.
  The metadata of the class stays empty. The class is still rewritten:
  \<^verbatim>\<open>visitClassNode\<close> returns it with the static factory method appended, which holds the
  empty object literal.
\<close>

theorem unnamed_class_records_nothing:
  assumes "className hostClass = None \<or> className hostClass = Some []"
  shows "addClassMetadata hostClass node objectLiteral metadata = metadata
       \<and> propertyNodeVisitor tc hostClass options hostFilename metadata member = metadata
       \<and> visitMembers tc hostClass options hostFilename metadata ms = metadata
       \<and> visitClassNode tc factoryName options hostFilename hostClass
           = hostClass\<lparr>members := members hostClass
                @ [MethodDeclaration [StaticKeyword] factoryName (ObjectLiteralExpression [])]\<rparr>"
  using assms
  by (simp add: addClassMetadata_unnamed propertyNodeVisitor_unnamed visitMembers_unnamed
      visitClassNode_def addMetadataFactory_def objectKeys_def map_filter_simps)

theorem unnamed_class_records_nothing_witness:
  "visitMembers (sampleChecker ([], [])) \<lparr>className = None, members = []\<rparr> emptyOptions [] []
     [PropertyDeclaration sampleName, PropertyDeclaration sampleAge] = []
   \<and> visitClassNode (sampleChecker ([], [])) ''_OPENAPI_METADATA_FACTORY'' emptyOptions []
       \<lparr>className = None, members = [PropertyDeclaration sampleName, PropertyDeclaration sampleAge]\<rparr>
     = \<lparr>className = None,
        members = [PropertyDeclaration sampleName, PropertyDeclaration sampleAge,
                   MethodDeclaration [StaticKeyword] ''_OPENAPI_METADATA_FACTORY''
                     (ObjectLiteralExpression [])]\<rparr>"
  using unnamed_class_records_nothing
    [of "\<lparr>className = None, members = [PropertyDeclaration sampleName, PropertyDeclaration sampleAge]\<rparr>"
        sampleName "ObjectLiteralExpression []" "[]" "sampleChecker ([], [])" emptyOptions "[]"
        "PropertyDeclaration sampleName"
        "[PropertyDeclaration sampleName, PropertyDeclaration sampleAge]" "''_OPENAPI_METADATA_FACTORY''"]
    unnamed_class_records_nothing
    [of "\<lparr>className = None, members = []\<rparr>"
        sampleName "ObjectLiteralExpression []" "[]" "sampleChecker ([], [])" emptyOptions "[]"
        "PropertyDeclaration sampleName"
        "[PropertyDeclaration sampleName, PropertyDeclaration sampleAge]" "''_OPENAPI_METADATA_FACTORY''"]
  by simp

text \<open>
  Claim C9 as stated fails: the class without a name that comes out of the visit is not
  the one that went in, a method was added on its behalf.
\<close>

theorem unnamed_class_gets_factory_method:
  "visitClassNode (sampleChecker ([], [])) ''_OPENAPI_METADATA_FACTORY'' emptyOptions []
       \<lparr>className = None, members = [PropertyDeclaration sampleName]\<rparr>
     = \<lparr>className = None,
        members = [PropertyDeclaration sampleName,
                   MethodDeclaration [StaticKeyword] ''_OPENAPI_METADATA_FACTORY''
                     (ObjectLiteralExpression [])]\<rparr>
   \<and> visitClassNode (sampleChecker ([], [])) ''_OPENAPI_METADATA_FACTORY'' emptyOptions []
       \<lparr>className = None, members = [PropertyDeclaration sampleName]\<rparr>
     \<noteq> \<lparr>className = None, members = [PropertyDeclaration sampleName]\<rparr>"
  by (simp add: visitClassNode_def visitMembers_unnamed addMetadataFactory_def objectKeys_def
      map_filter_simps)

section \<open>Members of a type literal\<close>





end
